theory Spec2Isabelle
  imports Complex_Main "HOL-Library.Word" "HOL-Library.Signed_Division"
    "HOL-Library.Multiset" "HOL-Library.Char_ord" "HOL-Library.List_Lexorder"
begin

section \<open>Common types\<close>

text \<open>
  The C++ exceptions of the pipeline are values: \<open>std::invalid_argument\<close> (thrown by
  \<open>PriceUtils::Frac2Price\<close>, \<open>ProductFactory::QueryProduct\<close> and
  \<open>BondAnalytics::QueryPV01\<close>) and \<open>std::runtime_error\<close> (thrown by the services'
  \<open>GetData\<close>); \<open>std::stol\<close> also throws \<open>std::out_of_range\<close>. \<open>OutsideModel\<close> marks
  an input on which the C++ standard gives the program no defined result (an index past the end
  of a \<open>vector\<close>, \<open>max_element\<close> of an empty range dereferenced) or on which the model of
  \<open>std::stod\<close> below does not say what the library returns.
\<close>

datatype error = InvalidArgument | RuntimeError | OutOfRange | OutsideModel

text \<open>
  A \<open>double\<close> is modelled by the rational it holds. Every price of the pipeline is a
  multiple of \<open>1/256\<close> of magnitude below \<open>2^31\<close>, and on those binary64 addition,
  subtraction, halving and the scalings by 32 and 256 are exact. A \<open>long\<close> is a 64-bit
  word, so that \<open>+\<close> and unary minus are the machine's.
\<close>

type_synonym double = rat
type_synonym long = "64 word"

section \<open>PriceUtils.hpp: the fractional price codec\<close>

subsection \<open>The standard library functions the codec calls\<close>

definition isspace :: "char \<Rightarrow> bool" where
  "isspace c \<longleftrightarrow> c \<in> set [CHR '' '', CHR 0x09, CHR 0x0A, CHR 0x0B, CHR 0x0C, CHR 0x0D]"

definition isdigit :: "char \<Rightarrow> bool" where
  "isdigit c \<longleftrightarrow> c \<in> set ''0123456789''"

definition digit_val :: "char \<Rightarrow> nat" where
  "digit_val c = of_char c - 48"

definition digit_char :: "nat \<Rightarrow> char" where
  "digit_char d = ''0123456789'' ! d"

definition decimal :: "string \<Rightarrow> nat" where
  "decimal ds = foldl (\<lambda>a c. 10 * a + digit_val c) 0 ds"

text \<open>\<open>std::string::find(c)\<close>: the index of the first occurrence, \<open>None\<close> for \<open>npos\<close>.\<close>

fun find_char :: "char \<Rightarrow> string \<Rightarrow> nat option" where
  "find_char c [] = None"
| "find_char c (x # xs) =
     (if x = c then Some 0 else map_option Suc (find_char c xs))"

text \<open>\<open>std::string::substr(pos, n)\<close> and \<open>substr(pos)\<close> for \<open>pos \<le> size\<close>.\<close>

definition substr :: "string \<Rightarrow> nat \<Rightarrow> nat \<Rightarrow> string" where
  "substr s pos n = take n (drop pos s)"

definition substr_from :: "string \<Rightarrow> nat \<Rightarrow> string" where
  "substr_from s pos = drop pos s"

text \<open>
  \<open>std::stod\<close> on its decimal-integer fragment: leading white space is skipped, a sign is
  read, then the longest run of decimal digits is converted and the rest of the string is
  ignored; with no digit there is no conversion and \<open>stod\<close> throws. The other forms that
  \<open>strtod\<close> accepts (a fraction or exponent after the digits, hexadecimal, \<open>inf\<close>,
  \<open>nan\<close>) and integers beyond \<open>2^53\<close>, which binary64 rounds, are reported as
  \<open>OutsideModel\<close> rather than given a value.
\<close>

datatype stod_result = Converted double | NoConversion | Unmodelled

definition starts_with_any :: "string \<Rightarrow> string \<Rightarrow> bool" where
  "starts_with_any cs s = (case s of [] \<Rightarrow> False | c # _ \<Rightarrow> c \<in> set cs)"

definition stod :: "string \<Rightarrow> stod_result" where
  "stod s =
     (let t = dropWhile isspace s;
          neg = (case t of [] \<Rightarrow> False | c # _ \<Rightarrow> c = CHR ''-'');
          u = (case t of [] \<Rightarrow> []
               | c # r \<Rightarrow> if c = CHR ''-'' \<or> c = CHR ''+'' then r else t);
          ds = takeWhile isdigit u;
          rest = dropWhile isdigit u
      in if ds = [] then
           (if starts_with_any ''.iInN'' rest then Unmodelled else NoConversion)
         else if starts_with_any ''.eExX'' rest \<or> 2 ^ 53 < int (decimal ds) then Unmodelled
         else Converted ((if neg then - 1 else 1) * of_nat (decimal ds)))"

text \<open>\<open>std::to_string\<close> on an \<open>int\<close>.\<close>

fun nat_digits :: "nat \<Rightarrow> string" where
  "nat_digits n =
     (if n < 10 then [digit_char n] else nat_digits (n div 10) @ [digit_char (n mod 10)])"

declare nat_digits.simps [simp del]

definition to_string :: "int \<Rightarrow> string" where
  "to_string i = (if i < 0 then CHR ''-'' # nat_digits (nat (- i)) else nat_digits (nat i))"

text \<open>
  \<open>static_cast<int>\<close> of a \<open>double\<close> truncates towards zero. The language defines the
  cast only for a value whose truncation fits an \<open>int\<close>; the statements about
  \<open>Price2Frac\<close> below keep the integer part of the price below \<open>2^31\<close>.
\<close>

definition static_cast_int :: "double \<Rightarrow> int" where
  "static_cast_int x = (if 0 \<le> x then \<lfloor>x\<rfloor> else \<lceil>x\<rceil>)"

subsection \<open>Frac2Price and Price2Frac\<close>

definition Frac2Price :: "string \<Rightarrow> error + double" where
  "Frac2Price PriceFrac =
     (case find_char (CHR ''-'') PriceFrac of
        None \<Rightarrow> Inl InvalidArgument
      | Some posDash \<Rightarrow>
          (case stod (substr PriceFrac 0 posDash) of
             NoConversion \<Rightarrow> Inl InvalidArgument
           | Unmodelled \<Rightarrow> Inl OutsideModel
           | Converted price1 \<Rightarrow>
               (let fractionalPart = substr_from PriceFrac (posDash + 1) in
                if length fractionalPart \<noteq> 3 then Inl InvalidArgument
                else
                  (let fractionalPart =
                         (if fractionalPart ! 2 = CHR ''+''
                          then fractionalPart[2 := CHR ''4''] else fractionalPart)
                   in case stod (substr fractionalPart 0 2) of
                        NoConversion \<Rightarrow> Inl InvalidArgument
                      | Unmodelled \<Rightarrow> Inl OutsideModel
                      | Converted a \<Rightarrow>
                          (case stod (substr fractionalPart 2 1) of
                             NoConversion \<Rightarrow> Inl InvalidArgument
                           | Unmodelled \<Rightarrow> Inl OutsideModel
                           | Converted b \<Rightarrow> Inr (price1 + a / 32 + b / 256))))))"

definition Price2Frac :: "double \<Rightarrow> string" where
  "Price2Frac price =
     (let intpart = static_cast_int (of_int \<lfloor>price\<rfloor>);
          fracpart = price - of_int intpart;
          xy = static_cast_int (fracpart * 32);
          z = static_cast_int (fracpart * 256) smod 8
      in to_string intpart @ ''-''
         @ ((if xy < 10 then ''0'' else '''') @ to_string xy)
         @ (if z = 4 then ''+'' else to_string z))"


text \<open>
  The spec-side reading of a fractional price string \<open>X-YYZ\<close>: \<open>X\<close> is the decimal numeral
  of the integer part, written as \<open>std::to_string\<close> writes an \<open>int\<close> (no redundant leading
  zero, below \<open>2^31\<close>); \<open>Z\<close> is a digit \<open>0..7\<close> or \<open>+\<close>, which stands for 4.
\<close>

definition valid_int_part :: "string \<Rightarrow> bool" where
  "valid_int_part X \<longleftrightarrow>
     X \<noteq> [] \<and> list_all isdigit X \<and> (X = ''0'' \<or> hd X \<noteq> CHR ''0'') \<and> int (decimal X) < 2 ^ 31"

definition frac_z :: "char \<Rightarrow> nat" where
  "frac_z z = (if z = CHR ''+'' then 4 else digit_val z)"

section \<open>Text records\<close>





section \<open>Listeners\<close>

text \<open>
  A service keeps the listeners registered with \<open>AddListener\<close> in a vector and calls
  \<open>ProcessAdd\<close> on each, in registration order. A listener is identified by a number; every
  service below records its \<open>ProcessAdd\<close> calls, in order, as pairs of the listener and
  the value passed. What a listener then does is an operation of the downstream service
  (\<open>AddTrade\<close>, \<open>AddPosition\<close>, \<open>AlgoExecuteOrder\<close>), modelled with that service.
\<close>

type_synonym listener = nat

definition ProcessAdd_all :: "listener list \<Rightarrow> 'v \<Rightarrow> (listener \<times> 'v) list" where
  "ProcessAdd_all listeners v = map (\<lambda>l. (l, v)) listeners"

section \<open>ProductFactory.hpp\<close>

text \<open>
  Modelled from the spec: \<open>products.hpp\<close>, which declares \<open>Bond\<close>, is not among the
  sources. The spec's data model gives a Product (Bond) the key \<open>productId\<close> (its CUSIP) and
  the attributes ticker, coupon and maturity; the constructor calls of \<open>ProductFactory\<close>
  pass exactly these.
\<close>

record Bond =
  productId :: string
  ticker :: string
  coupon :: double
  maturityDate :: string

definition productConstructors :: "(string \<times> Bond) list" where
  "productConstructors =
     [(''91282CAV3'', \<lparr>productId = ''91282CAV3'', ticker = ''US2Y'', coupon = 4500 / 100000, maturityDate = ''2026/11/30''\<rparr>),
      (''91282CBL4'', \<lparr>productId = ''91282CBL4'', ticker = ''US3Y'', coupon = 4750 / 100000, maturityDate = ''2027/12/15''\<rparr>),
      (''91282CCB5'', \<lparr>productId = ''91282CCB5'', ticker = ''US5Y'', coupon = 4875 / 100000, maturityDate = ''2029/11/30''\<rparr>),
      (''91282CCS8'', \<lparr>productId = ''91282CCS8'', ticker = ''US7Y'', coupon = 5000 / 100000, maturityDate = ''2031/11/30''\<rparr>),
      (''91282CDH2'', \<lparr>productId = ''91282CDH2'', ticker = ''US10Y'', coupon = 5125 / 100000, maturityDate = ''2034/12/15''\<rparr>),
      (''912810TM0'', \<lparr>productId = ''912810TM0'', ticker = ''US20Y'', coupon = 5250 / 100000, maturityDate = ''2044/12/15''\<rparr>),
      (''912810TL2'', \<lparr>productId = ''912810TL2'', ticker = ''US30Y'', coupon = 5375 / 100000, maturityDate = ''2054/12/15''\<rparr>)]"

definition QueryProduct :: "string \<Rightarrow> error + Bond" where
  "QueryProduct cusip =
     (case map_of productConstructors cusip of
        None \<Rightarrow> Inl InvalidArgument
      | Some b \<Rightarrow> Inr b)"

section \<open>pricingservice.hpp\<close>

record Price =
  price_product :: Bond
  mid :: double
  bidOfferSpread :: double

record PricingService =
  priceData :: "string \<rightharpoonup> Price"
  pricing_listeners :: "listener list"
  pricing_notified :: "(listener \<times> Price) list"

definition PricingService_GetData ::
  "string \<Rightarrow> PricingService \<Rightarrow> (error + Price) \<times> PricingService" where
  "PricingService_GetData key s =
     (case priceData s key of
        Some v \<Rightarrow> (Inr v, s)
      | None \<Rightarrow> (Inl RuntimeError, s))"






section \<open>marketdataservice.hpp\<close>

datatype PricingSide = BID | OFFER

record Order =
  order_price :: double
  order_quantity :: long
  order_side :: PricingSide

record BidOffer =
  bidOrder :: Order
  offerOrder :: Order

record OrderBook =
  book_product :: Bond
  bidStack :: "Order list"
  offerStack :: "Order list"

definition ComparePriceAsc :: "Order \<Rightarrow> Order \<Rightarrow> bool" where
  "ComparePriceAsc a b \<longleftrightarrow> order_price a < order_price b"

text \<open>
  \<open>std::max_element\<close> and \<open>std::min_element\<close> scan from the front and move to a later
  element only when it is strictly greater (smaller): they return the first greatest
  (smallest) element, and \<open>last\<close>, here \<open>None\<close>, for an empty range.
\<close>

fun max_element :: "('a \<Rightarrow> 'a \<Rightarrow> bool) \<Rightarrow> 'a list \<Rightarrow> 'a option" where
  "max_element cmp [] = None"
| "max_element cmp (x # xs) =
     Some (foldl (\<lambda>largest y. if cmp largest y then y else largest) x xs)"

fun min_element :: "('a \<Rightarrow> 'a \<Rightarrow> bool) \<Rightarrow> 'a list \<Rightarrow> 'a option" where
  "min_element cmp [] = None"
| "min_element cmp (x # xs) =
     Some (foldl (\<lambda>smallest y. if cmp y smallest then y else smallest) x xs)"

text \<open>\<open>OrderBook::BestBidOffer\<close> dereferences both results.\<close>

definition BestBidOffer :: "OrderBook \<Rightarrow> error + BidOffer" where
  "BestBidOffer book =
     (case max_element ComparePriceAsc (bidStack book) of
        None \<Rightarrow> Inl OutsideModel
      | Some bestBid \<Rightarrow>
          (case min_element ComparePriceAsc (offerStack book) of
             None \<Rightarrow> Inl OutsideModel
           | Some bestOffer \<Rightarrow> Inr \<lparr>bidOrder = bestBid, offerOrder = bestOffer\<rparr>))"

text \<open>
  \<open>Aggregate\<close> sums the quantities per price in an \<open>unordered_map<double, long>\<close> and
  then walks the map. \<open>priceMap_add p q\<close> is \<open>priceMap[p] += q\<close> on the entries of the map
  (a new key starts at 0). The order in which an \<open>unordered_map\<close> is walked is not fixed
  by the language, so it is the parameter \<open>iter\<close>, which lists the entries of the map.
\<close>

fun priceMap_add :: "double \<Rightarrow> long \<Rightarrow> (double \<times> long) list \<Rightarrow> (double \<times> long) list" where
  "priceMap_add p q [] = [(p, 0 + q)]"
| "priceMap_add p q ((p', q') # m) =
     (if p' = p then (p', q' + q) # m else (p', q') # priceMap_add p q m)"

definition Aggregate ::
  "((double \<times> long) list \<Rightarrow> (double \<times> long) list) \<Rightarrow> Order list \<Rightarrow> PricingSide \<Rightarrow> Order list" where
  "Aggregate iter stack side =
     (let priceMap = foldl (\<lambda>m order. priceMap_add (order_price order) (order_quantity order) m) [] stack
      in map (\<lambda>(price, quantity). \<lparr>order_price = price, order_quantity = quantity, order_side = side\<rparr>)
           (iter priceMap))"

record MarketDataService =
  orderBookMap :: "string \<rightharpoonup> OrderBook"
  md_listeners :: "listener list"
  md_notified :: "(listener \<times> OrderBook) list"
  bookDepth :: nat

text \<open>
  \<open>GetData\<close> of the market data service creates the book of a key it does not hold; the
  product comes from \<open>ProductFactory\<close>, which throws for an unknown CUSIP before anything
  is stored.
\<close>

definition MarketDataService_GetData ::
  "string \<Rightarrow> MarketDataService \<Rightarrow> (error + OrderBook) \<times> MarketDataService" where
  "MarketDataService_GetData key s =
     (if orderBookMap s key = None then
        (case QueryProduct key of
           Inl e \<Rightarrow> (Inl e, s)
         | Inr product \<Rightarrow>
             (let book = \<lparr>book_product = product, bidStack = [], offerStack = []\<rparr>
              in (Inr book, s\<lparr>orderBookMap := (orderBookMap s)(key \<mapsto> book)\<rparr>)))
      else (Inr (the (orderBookMap s key)), s))"


text \<open>
  \<open>AggregateDepth\<close> reads the book with \<open>orderBookMap[productId]\<close>, which stores a
  default-constructed book for a new key. \<open>products.hpp\<close> is not among the sources, so the
  default-constructed \<open>Bond\<close> is the parameter \<open>dflt\<close>.
\<close>

definition AggregateDepth ::
  "((double \<times> long) list \<Rightarrow> (double \<times> long) list) \<Rightarrow> Bond \<Rightarrow> string \<Rightarrow> MarketDataService
     \<Rightarrow> OrderBook \<times> MarketDataService" where
  "AggregateDepth iter dflt productId' s =
     (let orderBook = (case orderBookMap s productId' of
                          None \<Rightarrow> \<lparr>book_product = dflt, bidStack = [], offerStack = []\<rparr>
                        | Some b \<Rightarrow> b);
          orderBook = \<lparr>book_product = book_product orderBook,
                       bidStack = Aggregate iter (bidStack orderBook) BID,
                       offerStack = Aggregate iter (offerStack orderBook) OFFER\<rparr>
      in (orderBook, s\<lparr>orderBookMap := (orderBookMap s)(productId' \<mapsto> orderBook)\<rparr>))"






section \<open>SimpleAlgoOrderFactory.hpp and AlgoExecutionService.hpp\<close>

datatype OrderType = FOK | IOC | MARKET | LIMIT | STOP

datatype Market = BROKERTEC | ESPEED | CME

record ExecutionOrder =
  eo_product :: Bond
  eo_side :: PricingSide
  eo_orderId :: string
  eo_orderType :: OrderType
  eo_price :: double
  eo_visibleQuantity :: long
  eo_hiddenQuantity :: long
  eo_parentOrderId :: string
  eo_isChildOrder :: bool

record AlgoExecution =
  executionOrderRef :: ExecutionOrder
  ae_market :: Market

text \<open>
  \<open>RandomUtils::GenerateRandomId\<close> draws from a random device; the two strings it returns
  in one call of \<open>CreateExecutionOrder\<close> are the parameters \<open>rid11\<close> and \<open>rid5\<close>.
  \<open>count % 2\<close> is C++'s truncating remainder on the signed value of the counter.
\<close>

definition CreateExecutionOrder ::
  "string \<Rightarrow> string \<Rightarrow> OrderBook \<Rightarrow> long \<Rightarrow> error + ExecutionOrder" where
  "CreateExecutionOrder rid11 rid5 orderBook count' =
     (let product = book_product orderBook;
          orderId = ''Algo'' @ rid11;
          parentOrderId = ''AlgoParent'' @ rid5
      in case BestBidOffer orderBook of
           Inl e \<Rightarrow> Inl e
         | Inr bidOffer \<Rightarrow>
             (let bid = bidOrder bidOffer;
                  offer = offerOrder bidOffer;
                  bidPrice = order_price bid;
                  offerPrice = order_price offer;
                  bidQuantity = order_quantity bid;
                  offerQuantity = order_quantity offer;
                  (side, price, quantity) =
                    (if offerPrice - bidPrice \<le> 1 / 128 then
                       (if sint count' smod 2 = 0 then (BID, offerPrice, bidQuantity)
                        else (OFFER, bidPrice, offerQuantity))
                     else (BID, bidPrice, bidQuantity));
                  visibleQuantity = quantity;
                  hiddenQuantity = 0;
                  isChildOrder = False;
                  orderType = MARKET
              in Inr \<lparr>eo_product = product, eo_side = side, eo_orderId = orderId,
                      eo_orderType = orderType, eo_price = price,
                      eo_visibleQuantity = visibleQuantity, eo_hiddenQuantity = hiddenQuantity,
                      eo_parentOrderId = parentOrderId, eo_isChildOrder = isChildOrder\<rparr>))"

record AlgoExecutionService =
  algoExecutionData :: "string \<rightharpoonup> AlgoExecution"
  algoExecutionHolder :: "AlgoExecution list"
  execOrderHolder :: "ExecutionOrder list"
  algo_listeners :: "listener list"
  algo_notified :: "(listener \<times> AlgoExecution) list"
  algo_count :: long

definition AlgoExecutionService_GetData ::
  "string \<Rightarrow> AlgoExecutionService \<Rightarrow> (error + AlgoExecution) \<times> AlgoExecutionService" where
  "AlgoExecutionService_GetData key s =
     (case algoExecutionData s key of
        None \<Rightarrow> (Inl RuntimeError, s)
      | Some v \<Rightarrow> (Inr v, s))"

definition AlgoExecuteOrder ::
  "string \<Rightarrow> string \<Rightarrow> OrderBook \<Rightarrow> AlgoExecutionService \<Rightarrow> error + AlgoExecutionService" where
  "AlgoExecuteOrder rid11 rid5 orderBook s =
     (case CreateExecutionOrder rid11 rid5 orderBook (algo_count s) of
        Inl e \<Rightarrow> Inl e
      | Inr execOrder \<Rightarrow>
          (let algoExecutionObj = \<lparr>executionOrderRef = execOrder, ae_market = BROKERTEC\<rparr>;
               key = productId (eo_product execOrder)
           in Inr (s\<lparr>algo_count := algo_count s + 1,
                      algoExecutionData := (algoExecutionData s)(key \<mapsto> algoExecutionObj),
                      algoExecutionHolder := algoExecutionHolder s @ [algoExecutionObj],
                      execOrderHolder := execOrderHolder s @ [execOrder],
                      algo_notified := algo_notified s
                        @ ProcessAdd_all (algo_listeners s) algoExecutionObj\<rparr>)))"

section \<open>tradebookingservice.hpp\<close>

datatype Side = BUY | SELL

record Trade =
  trade_product :: Bond
  tradeId :: string
  trade_price :: double
  trade_book :: string
  trade_quantity :: long
  trade_side :: Side

record TradeBookingService =
  tradeData :: "string \<rightharpoonup> Trade"
  tb_listeners :: "listener list"
  tb_notified :: "(listener \<times> Trade) list"

definition TradeBookingService_GetData ::
  "string \<Rightarrow> TradeBookingService \<Rightarrow> (error + Trade) \<times> TradeBookingService" where
  "TradeBookingService_GetData key s =
     (case tradeData s key of
        None \<Rightarrow> (Inl RuntimeError, s)
      | Some v \<Rightarrow> (Inr v, s))"

definition TradeBookingService_OnMessage :: "Trade \<Rightarrow> TradeBookingService \<Rightarrow> TradeBookingService" where
  "TradeBookingService_OnMessage data s =
     (let key = tradeId data
      in s\<lparr>tradeData := (if tradeData s key \<noteq> None then (tradeData s)(key \<mapsto> data)
                            else (tradeData s)(key \<mapsto> data)),
            tb_notified := tb_notified s @ ProcessAdd_all (tb_listeners s) data\<rparr>)"

definition TradeBookingService_AddListener :: "listener \<Rightarrow> TradeBookingService \<Rightarrow> TradeBookingService" where
  "TradeBookingService_AddListener l s = s\<lparr>tb_listeners := tb_listeners s @ [l]\<rparr>"

definition BookTrade :: "Trade \<Rightarrow> TradeBookingService \<Rightarrow> TradeBookingService" where
  "BookTrade trade s = s\<lparr>tb_notified := tb_notified s @ ProcessAdd_all (tb_listeners s) trade\<rparr>"

text \<open>
  \<open>TradeBookingServiceListener\<close> holds the counter of the book rotation; its
  \<open>ProcessAdd\<close> turns an execution order into a trade and books it.
\<close>

definition TradeBookingServiceListener_ProcessAdd ::
  "ExecutionOrder \<Rightarrow> long \<times> TradeBookingService \<Rightarrow> long \<times> TradeBookingService" where
  "TradeBookingServiceListener_ProcessAdd order' ls =
     (let (count', service) = ls;
          product = eo_product order';
          orderId = eo_orderId order';
          price = eo_price order';
          totalQuantity = eo_visibleQuantity order' + eo_hiddenQuantity order';
          tradeSide = (if eo_side order' = BID then BUY else SELL);
          book = ''TRSY'' @ to_string (sint count' smod 3 + 1);
          trade = \<lparr>trade_product = product, tradeId = orderId, trade_price = price,
                    trade_book = book, trade_quantity = totalQuantity, trade_side = tradeSide\<rparr>
      in (count' + 1, BookTrade trade service))"

section \<open>positionservice.hpp\<close>

text \<open>
  \<open>bookPositionData\<close> is a \<open>std::map<string, long>\<close>: its entries are kept in the order of
  their keys, which is the order \<open>accumulate\<close> walks them in. \<open>Position_AddPosition\<close> is
  \<open>bookPositionData[book] += position\<close>; a new key starts at 0.
\<close>

record Position =
  position_product :: Bond
  bookPositionData :: "(string \<times> long) list"

fun map_add_at :: "string \<Rightarrow> long \<Rightarrow> (string \<times> long) list \<Rightarrow> (string \<times> long) list" where
  "map_add_at k v [] = [(k, 0 + v)]"
| "map_add_at k v ((k', w) # m) =
     (if k' = k then (k', w + v) # m
      else if k < k' then (k, 0 + v) # (k', w) # m
      else (k', w) # map_add_at k v m)"

definition GetPosition :: "Position \<Rightarrow> string \<Rightarrow> long" where
  "GetPosition p book = (case map_of (bookPositionData p) book of Some q \<Rightarrow> q | None \<Rightarrow> 0)"

definition GetAggregatePosition :: "Position \<Rightarrow> long" where
  "GetAggregatePosition p = foldl (\<lambda>sum pair. sum + snd pair) 0 (bookPositionData p)"

definition Position_AddPosition :: "string \<Rightarrow> long \<Rightarrow> Position \<Rightarrow> Position" where
  "Position_AddPosition book position p =
     p\<lparr>bookPositionData := map_add_at book position (bookPositionData p)\<rparr>"

record PositionService =
  positionData :: "string \<rightharpoonup> Position"
  position_listeners :: "listener list"
  position_notified :: "(listener \<times> Position) list"

definition PositionService_GetData ::
  "string \<Rightarrow> PositionService \<Rightarrow> (error + Position) \<times> PositionService" where
  "PositionService_GetData key s =
     (case positionData s key of
        Some v \<Rightarrow> (Inr v, s)
      | None \<Rightarrow> (Inl RuntimeError, s))"

definition AddTrade :: "Trade \<Rightarrow> PositionService \<Rightarrow> PositionService" where
  "AddTrade trade s =
     (let product = trade_product trade;
          productId' = productId product;
          book = trade_book trade;
          quantity = (if trade_side trade = BUY then trade_quantity trade
                      else - trade_quantity trade);
          emplaced = (case positionData s productId' of
                        None \<Rightarrow> \<lparr>position_product = product, bookPositionData = []\<rparr>
                      | Some p \<Rightarrow> p);
          position = Position_AddPosition book quantity emplaced
      in s\<lparr>positionData := (positionData s)(productId' \<mapsto> position),
            position_notified := position_notified s
              @ ProcessAdd_all (position_listeners s) position\<rparr>)"

text \<open>
  The spec's signed quantity of a trade (\<open>side==BUY ? +qty : -qty\<close>), and the service
  after a sequence of trades, each handed to \<open>AddTrade\<close> in turn.
\<close>

definition signedQty :: "Trade \<Rightarrow> long" where
  "signedQty trade = (if trade_side trade = BUY then trade_quantity trade else - trade_quantity trade)"

definition AddTrades :: "Trade list \<Rightarrow> PositionService \<Rightarrow> PositionService" where
  "AddTrades ts s = foldl (\<lambda>s t. AddTrade t s) s ts"

section \<open>riskservice.hpp and BondAnalytics.hpp\<close>

record PV01 =
  pv_product :: Bond
  pv01 :: double
  pv_quantity :: long

text \<open>
  \<open>BondAnalytics::QueryPV01\<close> looks the CUSIP up in a table of seven thunks, each a call of
  \<open>CalculatePV01\<close>, which is floating-point arithmetic with \<open>std::pow\<close>. The value a thunk
  returns is the parameter \<open>calc\<close>; the keys of the table are as in the source.
\<close>

definition pv01Map_keys :: "string list" where
  "pv01Map_keys = [''91282CAV3'', ''91282CBL4'', ''91282CCB5'', ''91282CCS8'', ''91282CDH2'',
                   ''912810TM0'', ''912810TL2'']"

definition QueryPV01 :: "(string \<Rightarrow> double) \<Rightarrow> string \<Rightarrow> error + double" where
  "QueryPV01 calc cusip =
     (if cusip \<in> set pv01Map_keys then Inr (calc cusip) else Inl InvalidArgument)"

definition UpdateQuantity :: "long \<Rightarrow> PV01 \<Rightarrow> PV01" where
  "UpdateQuantity q p = p\<lparr>pv_quantity := pv_quantity p + q\<rparr>"

record RiskService =
  pv01Data :: "string \<rightharpoonup> PV01"
  risk_listeners :: "listener list"
  risk_notified :: "(listener \<times> PV01) list"

definition RiskService_GetData ::
  "string \<Rightarrow> RiskService \<Rightarrow> (error + PV01) \<times> RiskService" where
  "RiskService_GetData key s =
     (case pv01Data s key of
        Some v \<Rightarrow> (Inr v, s)
      | None \<Rightarrow> (Inl RuntimeError, s))"

definition AddPosition :: "(string \<Rightarrow> double) \<Rightarrow> Position \<Rightarrow> RiskService \<Rightarrow> error + RiskService" where
  "AddPosition calc position s =
     (let product = position_product position;
          productId' = productId product;
          quantity = GetAggregatePosition position
      in case QueryPV01 calc productId' of
           Inl e \<Rightarrow> Inl e
         | Inr pv01Value \<Rightarrow>
             (let pv = \<lparr>pv_product = product, pv01 = pv01Value, pv_quantity = quantity\<rparr>;
                  stored = (case pv01Data s productId' of
                              Some old \<Rightarrow> (pv01Data s)(productId' \<mapsto> UpdateQuantity quantity old)
                            | None \<Rightarrow> (pv01Data s)(productId' \<mapsto> pv))
              in Inr (s\<lparr>pv01Data := stored,
                         risk_notified := risk_notified s @ ProcessAdd_all (risk_listeners s) pv\<rparr>)))"

text \<open>
  The chain behind one trade, as \<open>main.cpp\<close> wires it: \<open>PositionServiceListener::ProcessAdd\<close>
  calls \<open>AddTrade\<close>, whose first listener is the \<open>RiskServiceListener\<close>, whose
  \<open>ProcessAdd\<close> calls \<open>AddPosition\<close> with the position just updated.
\<close>

definition PositionServiceListener_ProcessAdd ::
  "(string \<Rightarrow> double) \<Rightarrow> Trade \<Rightarrow> PositionService \<times> RiskService
     \<Rightarrow> error + PositionService \<times> RiskService" where
  "PositionServiceListener_ProcessAdd calc trade sys =
     (let (ps, rs) = sys;
          ps' = AddTrade trade ps;
          position = the (positionData ps' (productId (trade_product trade)))
      in case AddPosition calc position rs of
           Inl e \<Rightarrow> Inl e
         | Inr rs' \<Rightarrow> Inr (ps', rs'))"

fun process_trades ::
  "(string \<Rightarrow> double) \<Rightarrow> Trade list \<Rightarrow> PositionService \<times> RiskService
     \<Rightarrow> error + PositionService \<times> RiskService" where
  "process_trades calc [] sys = Inr sys"
| "process_trades calc (t # ts) sys =
     (case PositionServiceListener_ProcessAdd calc t sys of
        Inl e \<Rightarrow> Inl e
      | Inr sys' \<Rightarrow> process_trades calc ts sys')"

section \<open>inquiryservice.hpp\<close>

datatype InquiryState = RECEIVED | QUOTED | DONE | REJECTED | CUSTOMER_REJECTED

record Inquiry =
  inquiryId :: string
  inq_product :: Bond
  inq_side :: Side
  inq_quantity :: long
  inq_price :: double
  inq_state :: InquiryState

record InquiryService =
  inquiryData :: "string \<rightharpoonup> Inquiry"
  inq_listeners :: "listener list"
  inq_notified :: "(listener \<times> Inquiry) list"

definition InquiryService_GetData ::
  "string \<Rightarrow> InquiryService \<Rightarrow> (error + Inquiry) \<times> InquiryService" where
  "InquiryService_GetData key s =
     (case inquiryData s key of
        Some v \<Rightarrow> (Inr v, s)
      | None \<Rightarrow> (Inl RuntimeError, s))"

text \<open>
  \<open>OnMessage\<close> takes the inquiry by reference and \<open>InquiryConnector::Publish\<close> changes
  it and calls \<open>OnMessage\<close> again, so both return the inquiry as they leave it together
  with the service. \<open>OnMessage\<close> reads \<open>state\<close> once, on entry; the test after the
  \<open>switch\<close> reads the inquiry again.
\<close>

function OnMessage :: "Inquiry \<Rightarrow> InquiryService \<Rightarrow> Inquiry \<times> InquiryService"
  and Publish :: "Inquiry \<Rightarrow> InquiryService \<Rightarrow> Inquiry \<times> InquiryService"
where
  "OnMessage data s =
     (let state = inq_state data;
          inquiryId' = inquiryId data;
          (data, s) =
            (if state = RECEIVED then Publish data s
             else if state = QUOTED then
               (let data = data\<lparr>inq_state := DONE\<rparr>;
                    erased = (if inquiryData s inquiryId' \<noteq> None
                              then (inquiryData s)(inquiryId' := None) else inquiryData s);
                    inserted = erased(inquiryId' \<mapsto> data)
                in (data, s\<lparr>inquiryData := inserted,
                             inq_notified := inq_notified s @ ProcessAdd_all (inq_listeners s) data\<rparr>))
             else (data, s));
          stored = (if inq_state data = DONE then (inquiryData s)(inquiryId data := None)
                    else (inquiryData s)(inquiryId data \<mapsto> data))
      in (data, s\<lparr>inquiryData := stored,
                   inq_notified := inq_notified s @ ProcessAdd_all (inq_listeners s) data\<rparr>))"
| "Publish data s =
     (if inq_state data = RECEIVED then OnMessage (data\<lparr>inq_state := QUOTED\<rparr>) s
      else (data, s))"
  by pat_completeness auto
termination
  by (relation "measure (\<lambda>x. case x of
                    Inl (d, s) \<Rightarrow> (if inq_state d = RECEIVED then 2 else 0)
                  | Inr (d, s) \<Rightarrow> (if inq_state d = RECEIVED then 1 else 0))") auto

declare OnMessage.simps [simp del] Publish.simps [simp del]

section \<open>The remaining keyed stores\<close>

text \<open>
  \<open>ExecutionService\<close>, \<open>StreamingService\<close>, \<open>AlgoStreamingService\<close>,
  \<open>HistoricalDataService\<close> and \<open>BaseService\<close> look a key up in a \<open>std::map\<close> and throw
  \<open>std::runtime_error\<close> when it is absent; the lookup is all these definitions read of
  the services.
\<close>

definition ExecutionService_GetData ::
  "string \<Rightarrow> (string \<rightharpoonup> ExecutionOrder) \<Rightarrow> (error + ExecutionOrder) \<times> (string \<rightharpoonup> ExecutionOrder)" where
  "ExecutionService_GetData key executionOrderData =
     (case executionOrderData key of
        Some v \<Rightarrow> (Inr v, executionOrderData)
      | None \<Rightarrow> (Inl RuntimeError, executionOrderData))"

definition StreamingService_GetData ::
  "string \<Rightarrow> (string \<rightharpoonup> 'v) \<Rightarrow> (error + 'v) \<times> (string \<rightharpoonup> 'v)" where
  "StreamingService_GetData key priceStreamData =
     (case priceStreamData key of
        None \<Rightarrow> (Inl RuntimeError, priceStreamData)
      | Some v \<Rightarrow> (Inr v, priceStreamData))"

definition AlgoStreamingService_GetData ::
  "string \<Rightarrow> (string \<rightharpoonup> 'v) \<Rightarrow> (error + 'v) \<times> (string \<rightharpoonup> 'v)" where
  "AlgoStreamingService_GetData key algoStreamData =
     (case algoStreamData key of
        None \<Rightarrow> (Inl RuntimeError, algoStreamData)
      | Some v \<Rightarrow> (Inr v, algoStreamData))"

definition HistoricalDataService_GetData ::
  "string \<Rightarrow> (string \<rightharpoonup> 'v) \<Rightarrow> (error + 'v) \<times> (string \<rightharpoonup> 'v)" where
  "HistoricalDataService_GetData key hisData =
     (case hisData key of
        Some v \<Rightarrow> (Inr v, hisData)
      | None \<Rightarrow> (Inl RuntimeError, hisData))"

definition BaseService_GetData ::
  "'k \<Rightarrow> ('k \<rightharpoonup> 'v) \<Rightarrow> (error + 'v) \<times> ('k \<rightharpoonup> 'v)" where
  "BaseService_GetData key dataMap =
     (case dataMap key of
        None \<Rightarrow> (Inl RuntimeError, dataMap)
      | Some v \<Rightarrow> (Inr v, dataMap))"

section \<open>Observations and the literal scenario of the position and risk chain\<close>

text \<open>
  What a caller reads of a product in the position service: its aggregate position and
  the slot of one book, 0 where nothing is stored. \<open>keys_ordered\<close> is the ordering of
  a \<open>std::map\<close>: every stored position lists its books in ascending order of the key.
\<close>

definition aggregate_of :: "PositionService \<Rightarrow> string \<Rightarrow> long" where
  "aggregate_of s p = (case positionData s p of None \<Rightarrow> 0 | Some pos \<Rightarrow> GetAggregatePosition pos)"

definition slot_of :: "PositionService \<Rightarrow> string \<Rightarrow> string \<Rightarrow> long" where
  "slot_of s p book = (case positionData s p of None \<Rightarrow> 0 | Some pos \<Rightarrow> GetPosition pos book)"

definition keys_ordered :: "PositionService \<Rightarrow> bool" where
  "keys_ordered s \<longleftrightarrow>
     (\<forall>pos \<in> ran (positionData s). sorted_wrt (<) (map fst (bookPositionData pos)))"

text \<open>
  The spec's scenario of two trades in the two-year note: 3,000,000 bought in book TRSY1,
  then 1,000,000 sold in book TRSY2; and the services as constructed, with their listeners.
\<close>

definition bond_2Y :: Bond where
  "bond_2Y = \<lparr>productId = ''91282CAV3'', ticker = ''US2Y'', coupon = 4500 / 100000,
               maturityDate = ''2026/11/30''\<rparr>"

definition trade_T1 :: Trade where
  "trade_T1 = \<lparr>trade_product = bond_2Y, tradeId = ''T1'', trade_price = 100,
                trade_book = ''TRSY1'', trade_quantity = 3000000, trade_side = BUY\<rparr>"

definition trade_T2 :: Trade where
  "trade_T2 = \<lparr>trade_product = bond_2Y, tradeId = ''T2'', trade_price = 100,
                trade_book = ''TRSY2'', trade_quantity = 1000000, trade_side = SELL\<rparr>"

definition PositionService_init :: "listener list \<Rightarrow> PositionService" where
  "PositionService_init ls = \<lparr>positionData = Map.empty, position_listeners = ls, position_notified = []\<rparr>"

definition RiskService_init :: "listener list \<Rightarrow> RiskService" where
  "RiskService_init ls = \<lparr>pv01Data = Map.empty, risk_listeners = ls, risk_notified = []\<rparr>"

section \<open>Literal scenarios of the other services\<close>

text \<open>The inquiry of the spec's scenario 5 and the inquiry service as constructed.\<close>

definition inquiry_INQ1 :: Inquiry where
  "inquiry_INQ1 = \<lparr>inquiryId = ''INQ1'', inq_product = bond_2Y, inq_side = BUY,
                     inq_quantity = 1000000, inq_price = 100, inq_state = RECEIVED\<rparr>"

definition InquiryService_init :: "listener list \<Rightarrow> InquiryService" where
  "InquiryService_init ls = \<lparr>inquiryData = Map.empty, inq_listeners = ls, inq_notified = []\<rparr>"

text \<open>
  The trade that \<open>TradeBookingServiceListener::ProcessAdd\<close> builds from an execution order
  when its counter is \<open>count'\<close>; an execution order and the trade booking service as
  constructed.
\<close>

definition synthesised_trade :: "ExecutionOrder \<Rightarrow> long \<Rightarrow> Trade" where
  "synthesised_trade order' count' =
     \<lparr>trade_product = eo_product order', tradeId = eo_orderId order', trade_price = eo_price order',
       trade_book = ''TRSY'' @ to_string (sint count' smod 3 + 1),
       trade_quantity = eo_visibleQuantity order' + eo_hiddenQuantity order',
       trade_side = (if eo_side order' = BID then BUY else SELL)\<rparr>"

definition order_A1 :: ExecutionOrder where
  "order_A1 = \<lparr>eo_product = bond_2Y, eo_side = BID, eo_orderId = ''AlgoA1'', eo_orderType = MARKET,
                eo_price = 100, eo_visibleQuantity = 1000000, eo_hiddenQuantity = 0,
                eo_parentOrderId = ''AlgoParentP1'', eo_isChildOrder = False\<rparr>"

definition TradeBookingService_init :: "listener list \<Rightarrow> TradeBookingService" where
  "TradeBookingService_init ls = \<lparr>tradeData = Map.empty, tb_listeners = ls, tb_notified = []\<rparr>"

text \<open>
  An order book whose best bid is \<open>99-317\<close> and whose best offer is \<open>100-000\<close>, a spread
  of 1/256, and the algo execution service as constructed.
\<close>

definition book_gate :: OrderBook where
  "book_gate = \<lparr>book_product = bond_2Y,
                 bidStack = [\<lparr>order_price = 99 + 31 / 32 + 7 / 256, order_quantity = 1000000, order_side = BID\<rparr>,
                             \<lparr>order_price = 99 + 31 / 32, order_quantity = 2000000, order_side = BID\<rparr>],
                 offerStack = [\<lparr>order_price = 100 + 1 / 32, order_quantity = 4000000, order_side = OFFER\<rparr>,
                               \<lparr>order_price = 100, order_quantity = 3000000, order_side = OFFER\<rparr>]\<rparr>"

definition AlgoExecutionService_init :: "listener list \<Rightarrow> AlgoExecutionService" where
  "AlgoExecutionService_init ls =
     \<lparr>algoExecutionData = Map.empty, algoExecutionHolder = [], execOrderHolder = [],
       algo_listeners = ls, algo_notified = [], algo_count = 0\<rparr>"

text \<open>
  The total quantity of the orders of a stack at one price; an order book with two bids at
  the same price; the market data service as constructed.
\<close>

definition qty_at :: "double \<Rightarrow> Order list \<Rightarrow> long" where
  "qty_at p stack = sum_list (map order_quantity (filter (\<lambda>x. order_price x = p) stack))"

definition book_two_bids :: OrderBook where
  "book_two_bids =
     \<lparr>book_product = bond_2Y,
       bidStack = [\<lparr>order_price = 99 + 16 / 32, order_quantity = 1000000, order_side = BID\<rparr>,
                   \<lparr>order_price = 99 + 16 / 32, order_quantity = 2000000, order_side = BID\<rparr>],
       offerStack = [\<lparr>order_price = 100, order_quantity = 3000000, order_side = OFFER\<rparr>]\<rparr>"

definition MarketDataService_init :: "listener list \<Rightarrow> MarketDataService" where
  "MarketDataService_init ls =
     \<lparr>orderBookMap = Map.empty, md_listeners = ls, md_notified = [], bookDepth = 5\<rparr>"


text \<open>
  The pricing service as constructed; a price file whose second line has the ill-formed bid
  \<open>99-1\<close> and whose third line is well-formed; a well-formed market data line of five
  levels, the book it aggregates to, and the same line with the bid \<open>99-1\<close> at the first level.
\<close>

definition PricingService_init :: "listener list \<Rightarrow> PricingService" where
  "PricingService_init ls = \<lparr>priceData = Map.empty, pricing_listeners = ls, pricing_notified = []\<rparr>"




section \<open>The fractional price codec: proofs\<close>

lemma decimal_snoc: "decimal (ds @ [c]) = 10 * decimal ds + digit_val c"
  by (simp add: decimal_def)

lemma isdigit_cases:
  "isdigit c \<longleftrightarrow> c = CHR ''0'' \<or> c = CHR ''1'' \<or> c = CHR ''2'' \<or> c = CHR ''3'' \<or> c = CHR ''4''
     \<or> c = CHR ''5'' \<or> c = CHR ''6'' \<or> c = CHR ''7'' \<or> c = CHR ''8'' \<or> c = CHR ''9''"
  by (auto simp: isdigit_def)

lemma digit_val_lt: "isdigit c \<Longrightarrow> digit_val c < 10"
  by (auto simp: isdigit_cases digit_val_def)

lemma digit_char_val: "isdigit c \<Longrightarrow> digit_char (digit_val c) = c"
  by (auto simp: isdigit_cases digit_val_def digit_char_def)

lemma digit_val_zero: "isdigit c \<Longrightarrow> digit_val c = 0 \<longleftrightarrow> c = CHR ''0''"
  by (auto simp: isdigit_cases digit_val_def)

lemma nat_digits_decimal:
  "ds \<noteq> [] \<Longrightarrow> list_all isdigit ds \<Longrightarrow> hd ds \<noteq> CHR ''0''
     \<Longrightarrow> nat_digits (decimal ds) = ds \<and> 0 < decimal ds"
proof (induction ds rule: rev_induct)
  case Nil
  then show ?case by simp
next
  case (snoc c xs)
  have dc: "isdigit c" using snoc.prems(2) by simp
  show ?case
  proof (cases "xs = []")
    case True
    then have "c \<noteq> CHR ''0''" using snoc.prems(3) by simp
    then have "0 < digit_val c" using dc digit_val_zero by auto
    moreover have "decimal [c] = digit_val c" by (simp add: decimal_def)
    ultimately show ?thesis
      using True dc by (simp add: nat_digits.simps [of "digit_val c"] digit_val_lt digit_char_val)
  next
    case False
    then have ih: "nat_digits (decimal xs) = xs" "0 < decimal xs"
      using snoc by auto
    have ge: "\<not> 10 * decimal xs + digit_val c < 10" using ih(2) by simp
    have "(10 * decimal xs + digit_val c) div 10 = decimal xs"
      using digit_val_lt [OF dc] by simp
    moreover have "(10 * decimal xs + digit_val c) mod 10 = digit_val c"
      using digit_val_lt [OF dc] by simp
    ultimately show ?thesis
      using ge ih dc
      by (simp add: decimal_snoc nat_digits.simps [of "10 * decimal xs + digit_val c"] digit_char_val)
  qed
qed

lemma nat_digits_zero: "nat_digits (decimal ''0'') = ''0''"
  by code_simp

lemma takeWhile_all: "list_all P xs \<Longrightarrow> takeWhile P xs = xs"
  by (induction xs) auto

lemma dropWhile_all: "list_all P xs \<Longrightarrow> dropWhile P xs = []"
  by (induction xs) auto

lemma isdigit_not_space: "isdigit c \<Longrightarrow> \<not> isspace c"
  by (auto simp: isdigit_cases isspace_def)

lemma isdigit_not_sign: "isdigit c \<Longrightarrow> c \<noteq> CHR ''-'' \<and> c \<noteq> CHR ''+''"
  by (auto simp: isdigit_cases)

lemma stod_digits:
  assumes "ds \<noteq> []" "list_all isdigit ds" "int (decimal ds) \<le> 2 ^ 53"
  shows "stod ds = Converted (of_nat (decimal ds))"
proof -
  obtain c r where ds: "ds = c # r" using assms(1) by (cases ds) auto
  have c: "isdigit c" using assms(2) ds by simp
  have t: "dropWhile isspace ds = ds" using ds isdigit_not_space [OF c] by simp
  have neg: "(case ds of [] \<Rightarrow> False | c # _ \<Rightarrow> c = CHR ''-'') = False"
    using isdigit_not_sign [OF c] by (simp add: ds)
  have u: "(case ds of [] \<Rightarrow> [] | c # r \<Rightarrow> if c = CHR ''-'' \<or> c = CHR ''+'' then r else ds) = ds"
    using isdigit_not_sign [OF c] by (simp add: ds)
  have tw: "takeWhile isdigit ds = ds" by (rule takeWhile_all [OF assms(2)])
  have dw: "dropWhile isdigit ds = []" by (rule dropWhile_all [OF assms(2)])
  show ?thesis
    unfolding stod_def t Let_def neg u tw dw
    using assms(1,3) by (simp add: starts_with_any_def)
qed

lemma find_char_append:
  "c \<notin> set xs \<Longrightarrow> find_char c (xs @ c # ys) = Some (length xs)"
  by (induction xs) auto

lemma of_nat_le31: "yy < 32 \<Longrightarrow> (of_nat yy :: rat) \<le> 31"
proof -
  assume "yy < 32"
  then have "yy \<le> 31" by simp
  then have "(of_nat yy :: rat) \<le> of_nat 31" by (rule of_nat_mono)
  then show ?thesis by simp
qed

lemma of_nat_le7: "zz < 8 \<Longrightarrow> (of_nat zz :: rat) \<le> 7"
proof -
  assume "zz < 8"
  then have "zz \<le> 7" by simp
  then have "(of_nat zz :: rat) \<le> of_nat 7" by (rule of_nat_mono)
  then show ?thesis by simp
qed

lemma frac_bounds:
  fixes yy zz :: nat
  assumes "yy < 32" "zz < 8"
  shows "0 \<le> (of_nat yy / 32 + of_nat zz / 256 :: rat)" "(of_nat yy / 32 + of_nat zz / 256 :: rat) < 1"
proof -
  show "0 \<le> (of_nat yy / 32 + of_nat zz / 256 :: rat)" by simp
  show "(of_nat yy / 32 + of_nat zz / 256 :: rat) < 1"
    using of_nat_le31 [OF assms(1)] of_nat_le7 [OF assms(2)] by simp
qed

lemma floor_price:
  fixes yy zz n :: nat
  assumes "yy < 32" "zz < 8"
  shows "\<lfloor>of_nat n + of_nat yy / 32 + of_nat zz / 256 :: rat\<rfloor> = int n"
proof -
  have "of_int (int n) \<le> (of_nat n + of_nat yy / 32 + of_nat zz / 256 :: rat)"
    by simp
  moreover have "(of_nat n + of_nat yy / 32 + of_nat zz / 256 :: rat) < of_int (int n) + 1"
    using frac_bounds(2) [OF assms] by simp
  ultimately show ?thesis by (simp only: floor_eq_iff)
qed

lemma floor_32:
  fixes yy zz :: nat
  assumes "zz < 8"
  shows "\<lfloor>(of_nat yy / 32 + of_nat zz / 256 :: rat) * 32\<rfloor> = int yy"
proof -
  have "of_int (int yy) \<le> (of_nat yy / 32 + of_nat zz / 256 :: rat) * 32"
    by (simp add: algebra_simps)
  moreover have "(of_nat yy / 32 + of_nat zz / 256 :: rat) * 32 < of_int (int yy) + 1"
    using of_nat_le7 [OF assms] by (simp add: algebra_simps)
  ultimately show ?thesis by (simp only: floor_eq_iff) 
qed

lemma floor_256:
  fixes yy zz :: nat
  shows "\<lfloor>(of_nat yy / 32 + of_nat zz / 256 :: rat) * 256\<rfloor> = int (8 * yy + zz)"
proof -
  have "(of_nat yy / 32 + of_nat zz / 256 :: rat) * 256 = of_int (int (8 * yy + zz))"
    by (simp add: algebra_simps)
  then show ?thesis by (simp only: floor_of_int)
qed


lemma Price2Frac_parts:
  fixes n yy zz :: nat
  assumes "yy < 32" "zz < 8"
  shows "Price2Frac (of_nat n + of_nat yy / 32 + of_nat zz / 256) =
           nat_digits n @ ''-'' @ ((if yy < 10 then ''0'' else '''') @ nat_digits yy)
             @ (if zz = 4 then ''+'' else nat_digits zz)"
proof -
  let ?p = "of_nat n + of_nat yy / 32 + of_nat zz / 256 :: rat"
  have ip: "static_cast_int (of_int \<lfloor>?p\<rfloor>) = int n"
    by (simp add: floor_price [OF assms] static_cast_int_def)
  have fp: "?p - of_int (int n) = of_nat yy / 32 + of_nat zz / 256" by simp
  have xy: "static_cast_int ((of_nat yy / 32 + of_nat zz / 256) * 32) = int yy"
    unfolding static_cast_int_def floor_32 [OF assms(2)] by simp
  have z: "static_cast_int ((of_nat yy / 32 + of_nat zz / 256) * 256) smod 8 = int zz"
  proof -
    have "static_cast_int ((of_nat yy / 32 + of_nat zz / 256) * 256) = int (8 * yy + zz)"
      unfolding static_cast_int_def floor_256 by simp
    moreover have "int (8 * yy + zz) smod 8 = int zz"
    proof -
      have "(8 * int yy + int zz) mod 8 = int zz" using assms(2) by simp
      then show ?thesis by (simp add: smod_int_alt_def sgn_if)
    qed
    ultimately show ?thesis by simp
  qed
  show ?thesis
    unfolding Price2Frac_def Let_def ip fp xy z
    by (simp add: to_string_def)
qed

lemma two_digits:
  assumes "isdigit y1" "isdigit y2"
  shows "(if decimal [y1, y2] < 10 then ''0'' else '''') @ nat_digits (decimal [y1, y2]) = [y1, y2]"
proof -
  have d: "decimal [y1, y2] = 10 * digit_val y1 + digit_val y2" by (simp add: decimal_def)
  note l1 = digit_val_lt [OF assms(1)] and l2 = digit_val_lt [OF assms(2)]
  show ?thesis
  proof (cases "digit_val y1 = 0")
    case True
    have y1: "y1 = CHR ''0''" using True digit_val_zero [OF assms(1)] by simp
    show ?thesis
      unfolding d True using l2 assms(2)
      by (simp add: y1 nat_digits.simps [of "digit_val y2"] digit_char_val)
  next
    case False
    have "(10 * digit_val y1 + digit_val y2) div 10 = digit_val y1"
      "(10 * digit_val y1 + digit_val y2) mod 10 = digit_val y2"
      using l2 by simp_all
    then show ?thesis
      using False l1 assms
      by (simp add: d nat_digits.simps [of "10 * digit_val y1 + digit_val y2"]
            nat_digits.simps [of "digit_val y1"] digit_char_val)
  qed
qed

lemma one_digit: "isdigit z \<Longrightarrow> nat_digits (digit_val z) = [z]"
  by (simp add: nat_digits.simps [of "digit_val z"] digit_val_lt digit_char_val)


lemma nat_digits_canonical:
  assumes "valid_int_part X"
  shows "nat_digits (decimal X) = X"
proof (cases "X = ''0''")
  case True
  then show ?thesis by (simp add: nat_digits_zero)
next
  case False
  then show ?thesis
    using assms nat_digits_decimal [of X] by (simp add: valid_int_part_def)
qed

lemma Frac2Price_valid:
  assumes X: "valid_int_part X" and y: "isdigit y1" "isdigit y2"
    and z: "z \<in> set ''01234567+''"
  shows "Frac2Price (X @ ''-'' @ [y1, y2, z]) =
           Inr (of_nat (decimal X) + of_nat (decimal [y1, y2]) / 32 + of_nat (frac_z z) / 256)"
proof -
  have Xd: "X \<noteq> []" "list_all isdigit X" "int (decimal X) \<le> 2 ^ 53"
    using X by (simp_all add: valid_int_part_def)
  have nd: "CHR ''-'' \<notin> set X"
    using Xd(2) isdigit_not_sign by (auto simp: list_all_iff)
  have f: "find_char (CHR ''-'') (X @ ''-'' @ [y1, y2, z]) = Some (length X)"
    using find_char_append [OF nd] by simp
  have s1: "stod X = Converted (of_nat (decimal X))"
    by (rule stod_digits [OF Xd])
  define z' where "z' = (if z = CHR ''+'' then CHR ''4'' else z)"
  have z': "isdigit z'" "digit_val z' = frac_z z"
    using z by (auto simp: z'_def isdigit_def frac_z_def digit_val_def)
  have "int (decimal [y1, y2]) \<le> 99"
    using digit_val_lt [OF y(1)] digit_val_lt [OF y(2)] by (simp add: decimal_def)
  then have s2: "stod [y1, y2] = Converted (of_nat (decimal [y1, y2]))"
    using y by (intro stod_digits) simp_all
  have "int (decimal [z']) \<le> 9"
    using digit_val_lt [OF z'(1)] by (simp add: decimal_def)
  then have s3: "stod [z'] = Converted (of_nat (frac_z z))"
    using stod_digits [of "[z']"] z' by (simp add: decimal_def)
  show ?thesis
    unfolding Frac2Price_def f
    using s1 s2 s3 unfolding z'_def
    by (cases "z = CHR ''+''") (simp_all add: substr_def substr_from_def Let_def)
qed

text \<open>
  Claim C6. For every valid fractional price string \<open>X-YYZ\<close> (\<open>X\<close> the integer part
  as a decimal numeral, \<open>YY\<close> two digits in 00..31, \<open>Z\<close> a digit 0..7 or \<open>+\<close> for 4),
  \<open>Frac2Price\<close> returns \<open>X + YY/32 + Z/256\<close>, and \<open>Price2Frac\<close> of that value returns
  the string again, with \<open>+\<close> in the last place where the string has \<open>4\<close> or \<open>+\<close>.
\<close>

theorem frac_roundtrip:
  assumes "valid_int_part X" and "isdigit y1" and "isdigit y2" and "decimal [y1, y2] < 32"
    and "z \<in> set ''01234567+''"
  shows "Frac2Price (X @ ''-'' @ [y1, y2, z]) =
           Inr (of_nat (decimal X) + of_nat (decimal [y1, y2]) / 32 + of_nat (frac_z z) / 256)
       \<and> Price2Frac (of_nat (decimal X) + of_nat (decimal [y1, y2]) / 32 + of_nat (frac_z z) / 256) =
           X @ ''-'' @ [y1, y2, if z = CHR ''4'' then CHR ''+'' else z]"
proof
  show "Frac2Price (X @ ''-'' @ [y1, y2, z]) =
           Inr (of_nat (decimal X) + of_nat (decimal [y1, y2]) / 32 + of_nat (frac_z z) / 256)"
    by (rule Frac2Price_valid [OF assms(1,2,3,5)])
next
  have zz: "frac_z z < 8" using assms(5) by (auto simp: frac_z_def digit_val_def)
  have last: "(if frac_z z = 4 then ''+'' else nat_digits (frac_z z)) =
                [if z = CHR ''4'' then CHR ''+'' else z]"
    using assms(5) by (auto simp: frac_z_def digit_val_def nat_digits.simps digit_char_def)
  show "Price2Frac (of_nat (decimal X) + of_nat (decimal [y1, y2]) / 32 + of_nat (frac_z z) / 256) =
           X @ ''-'' @ [y1, y2, if z = CHR ''4'' then CHR ''+'' else z]"
    unfolding Price2Frac_parts [OF assms(4) zz] nat_digits_canonical [OF assms(1)] last
    using two_digits [OF assms(2,3)] by simp
qed

text \<open>The string \<open>99-16+\<close> satisfies the hypotheses of C6.\<close>

theorem frac_roundtrip_witness:
  "valid_int_part ''99'' \<and> isdigit (CHR ''1'') \<and> isdigit (CHR ''6'') \<and> decimal ''16'' < 32
   \<and> CHR ''+'' \<in> set ''01234567+''
   \<and> Frac2Price ''99-16+'' = Inr (99 + 16 / 32 + 4 / 256)
   \<and> Price2Frac (99 + 16 / 32 + 4 / 256) = ''99-16+''"
  using frac_roundtrip [of "''99''" "CHR ''1''" "CHR ''6''" "CHR ''+''"]
  by (simp add: valid_int_part_def isdigit_def decimal_def digit_val_def frac_z_def)

lemmas codec_defs = Frac2Price_def stod_def substr_def substr_from_def isspace_def isdigit_def
  decimal_def digit_val_def starts_with_any_def Let_def

text \<open>
  Claim C7, as the code has it. \<open>Frac2Price\<close> rejects \<open>99-162+\<close>: the part after the
  dash has four characters and the function throws \<open>invalid_argument\<close> unless it has three.
  The value 99.515625 is the decoding of \<open>99-16+\<close>; \<open>Price2Frac\<close> of 99.515625 is
  \<open>99-16+\<close> and of 100 is \<open>100-000\<close>.
\<close>

theorem codec_literal_cases:
  "Frac2Price ''99-16+'' = Inr (99515625 / 1000000)
   \<and> Frac2Price ''99-162+'' = Inl InvalidArgument
   \<and> Price2Frac (99515625 / 1000000) = ''99-16+''
   \<and> Price2Frac 100 = ''100-000''"
proof -
  have "Frac2Price ''99-16+'' = Inr (99515625 / 1000000)"
    by (simp add: codec_defs)
  moreover have "Frac2Price ''99-162+'' = Inl InvalidArgument"
    by (simp add: codec_defs)
  moreover have "Price2Frac (99515625 / 1000000) = ''99-16+''"
    using Price2Frac_parts [of 16 4 99] by (simp add: nat_digits.simps digit_char_def)
  moreover have "Price2Frac 100 = ''100-000''"
    using Price2Frac_parts [of 0 0 100] by (simp add: nat_digits.simps digit_char_def)
  ultimately show ?thesis by simp
qed

text \<open>C7 as stated fails: decoding \<open>99-162+\<close> does not return 99.515625.\<close>

theorem codec_literal_counterexample:
  "Frac2Price ''99-162+'' \<noteq> Inr (99 + 16 / 32 + 4 / 256)"
  by (simp add: codec_defs)

section \<open>Positions and risk: proofs\<close>

lemma foldl_add_snd:
  fixes a :: long
  shows "foldl (\<lambda>sum pair. sum + snd pair) a m = a + sum_list (map snd m)"
  by (induction m arbitrary: a) (simp_all add: add.assoc)

lemma sum_map_add_at:
  "sum_list (map snd (map_add_at k v m)) = sum_list (map snd m) + v"
  by (induction m) (auto simp: add.assoc add.commute add.left_commute)

lemma fst_map_add_at: "set (map fst (map_add_at k v m)) = insert k (set (map fst m))"
  by (induction k v m rule: map_add_at.induct) (simp_all add: insert_commute)

lemma sorted_map_add_at:
  "sorted_wrt (<) (map fst m) \<Longrightarrow> sorted_wrt (<) (map fst (map_add_at k v m))"
proof (induction m)
  case Nil
  then show ?case by simp
next
  case (Cons a m)
  obtain k' w where a: "a = (k', w)" by (cases a)
  show ?case
  proof (cases "k' = k")
    case True
    then show ?thesis using Cons.prems a by simp
  next
    case False
    show ?thesis
    proof (cases "k < k'")
      case True
      then show ?thesis using Cons.prems a False by auto
    next
      case ge: False
      then have lt: "k' < k" using False by auto
      have "\<forall>x \<in> set (map fst (map_add_at k v m)). k' < x"
        using Cons.prems a lt by (auto simp: fst_map_add_at simp del: set_map)
      then show ?thesis using Cons a False ge by simp
    qed
  qed
qed

lemma map_of_map_add_at:
  "sorted_wrt (<) (map fst m) \<Longrightarrow>
     map_of (map_add_at k v m) b =
       (if b = k then Some ((case map_of m k of None \<Rightarrow> 0 | Some w \<Rightarrow> w) + v) else map_of m b)"
proof (induction k v m rule: map_add_at.induct)
  case (1 k v)
  then show ?case by simp
next
  case (2 k v k' w m)
  show ?case
  proof (cases "k' = k")
    case True
    then show ?thesis by simp
  next
    case False
    show ?thesis
    proof (cases "k < k'")
      case True
      have "\<forall>x \<in> set (map fst m). k < x" using "2.prems" True by auto
      then have "k \<notin> set (map fst m)" by auto
      then have "map_of m k = None" by (simp add: map_of_eq_None_iff)
      then show ?thesis using False True by simp
    next
      case ge: False
      have "map_of (map_add_at k v m) b =
              (if b = k then Some ((case map_of m k of None \<Rightarrow> 0 | Some w \<Rightarrow> w) + v) else map_of m b)"
        using "2.IH" [OF False ge] "2.prems" by simp
      then show ?thesis using False ge by (cases "b = k") simp_all
    qed
  qed
qed


lemma GetAggregatePosition_sum:
  "GetAggregatePosition p = sum_list (map snd (bookPositionData p))"
  by (simp add: GetAggregatePosition_def foldl_add_snd)

lemma GetAggregatePosition_AddPosition:
  "GetAggregatePosition (Position_AddPosition book q p) = GetAggregatePosition p + q"
  by (simp add: GetAggregatePosition_sum Position_AddPosition_def sum_map_add_at)

lemma GetPosition_AddPosition:
  "sorted_wrt (<) (map fst (bookPositionData p)) \<Longrightarrow>
     GetPosition (Position_AddPosition book q p) b =
       GetPosition p b + (if b = book then q else 0)"
  by (simp add: GetPosition_def Position_AddPosition_def map_of_map_add_at)

lemma positionData_AddTrade:
  "positionData (AddTrade t s) =
     (positionData s)(productId (trade_product t) \<mapsto>
        Position_AddPosition (trade_book t) (signedQty t)
          (case positionData s (productId (trade_product t)) of
             None \<Rightarrow> \<lparr>position_product = trade_product t, bookPositionData = []\<rparr>
           | Some p \<Rightarrow> p))"
  by (simp add: AddTrade_def signedQty_def Let_def)

lemma aggregate_of_AddTrade:
  "aggregate_of (AddTrade t s) p =
     aggregate_of s p + (if productId (trade_product t) = p then signedQty t else 0)"
proof (cases "productId (trade_product t) = p")
  case True
  show ?thesis
  proof (cases "positionData s p")
    case None
    then show ?thesis
      using True
      by (simp add: aggregate_of_def positionData_AddTrade GetAggregatePosition_AddPosition)
        (simp add: GetAggregatePosition_def)
  next
    case (Some pos)
    then show ?thesis
      using True
      by (simp add: aggregate_of_def positionData_AddTrade GetAggregatePosition_AddPosition)
  qed
next
  case False
  then show ?thesis by (simp add: aggregate_of_def positionData_AddTrade)
qed

lemma keys_ordered_AddTrade: "keys_ordered s \<Longrightarrow> keys_ordered (AddTrade t s)"
  unfolding keys_ordered_def positionData_AddTrade
  by (auto simp: ran_def Position_AddPosition_def sorted_map_add_at split: option.splits if_splits)

lemma slot_of_AddTrade:
  assumes "keys_ordered s"
  shows "slot_of (AddTrade t s) p b =
       slot_of s p b + (if productId (trade_product t) = p \<and> trade_book t = b then signedQty t else 0)"
proof (cases "productId (trade_product t) = p")
  case True
  show ?thesis
  proof (cases "positionData s p")
    case None
    have "sorted_wrt (<) (map fst (bookPositionData \<lparr>position_product = trade_product t, bookPositionData = []\<rparr>))"
      by simp
    from GetPosition_AddPosition [OF this] show ?thesis
      using True None by (simp add: slot_of_def positionData_AddTrade) (simp add: GetPosition_def)
  next
    case (Some pos)
    then have "pos \<in> ran (positionData s)" by (auto simp: ran_def)
    then have "sorted_wrt (<) (map fst (bookPositionData pos))"
      using assms by (simp add: keys_ordered_def)
    from GetPosition_AddPosition [OF this] show ?thesis
      using True Some by (simp add: slot_of_def positionData_AddTrade)
  qed
next
  case False
  then show ?thesis by (simp add: slot_of_def positionData_AddTrade)
qed

lemma AddTrades_snoc: "AddTrades (ts @ [t]) s = AddTrade t (AddTrades ts s)"
  by (simp add: AddTrades_def)

lemma keys_ordered_AddTrades: "keys_ordered s \<Longrightarrow> keys_ordered (AddTrades ts s)"
  by (induction ts rule: rev_induct) (simp_all add: AddTrades_snoc keys_ordered_AddTrade, simp add: AddTrades_def)

lemma aggregate_of_AddTrades:
  "aggregate_of (AddTrades ts s) p =
     aggregate_of s p + sum_list (map signedQty (filter (\<lambda>t. productId (trade_product t) = p) ts))"
proof (induction ts rule: rev_induct)
  case Nil
  then show ?case by (simp add: AddTrades_def)
next
  case (snoc t ts)
  then show ?case by (simp add: AddTrades_snoc aggregate_of_AddTrade add.assoc)
qed

lemma slot_of_AddTrades:
  "keys_ordered s \<Longrightarrow>
     slot_of (AddTrades ts s) p b =
       slot_of s p b
       + sum_list (map signedQty (filter (\<lambda>t. productId (trade_product t) = p \<and> trade_book t = b) ts))"
proof (induction ts rule: rev_induct)
  case Nil
  then show ?case by (simp add: AddTrades_def)
next
  case (snoc t ts)
  then show ?case
    by (simp add: AddTrades_snoc slot_of_AddTrade keys_ordered_AddTrades add.assoc)
qed

lemma stored_AddTrades:
  "t \<in> set ts \<Longrightarrow> positionData (AddTrades ts s) (productId (trade_product t)) \<noteq> None"
proof (induction ts rule: rev_induct)
  case Nil
  then show ?case by simp
next
  case (snoc x xs)
  then show ?case by (auto simp: AddTrades_snoc positionData_AddTrade)
qed

text \<open>
  Claim C2. For every product and every non-empty sequence of trades in that product handed
  to \<open>AddTrade\<close> in turn, starting from the service as constructed, the position stored for
  the product has as aggregate the sum of the trades' signed quantities (plus the quantity
  of a BUY, minus that of a SELL), and the slot of each book holds the sum of the signed
  quantities of the trades in that book. Sums are those of the 64-bit \<open>long\<close>.
\<close>

theorem position_linearity:
  assumes "ts \<noteq> []" and "\<forall>t \<in> set ts. productId (trade_product t) = p"
  shows "\<exists>pos. positionData (AddTrades ts \<lparr>positionData = Map.empty, position_listeners = ls,
                                            position_notified = []\<rparr>) p = Some pos
           \<and> GetAggregatePosition pos = sum_list (map signedQty ts)
           \<and> (\<forall>book. GetPosition pos book =
                  sum_list (map signedQty (filter (\<lambda>t. trade_book t = book) ts)))"
proof -
  let ?s0 = "\<lparr>positionData = Map.empty, position_listeners = ls, position_notified = []\<rparr>"
  obtain t where t: "t \<in> set ts" using assms(1) by (cases ts) auto
  then have "positionData (AddTrades ts ?s0) p \<noteq> None"
    using stored_AddTrades [OF t, of ?s0] assms(2) by simp
  then obtain pos where pos: "positionData (AddTrades ts ?s0) p = Some pos" by auto
  have ko: "keys_ordered ?s0" by (simp add: keys_ordered_def)
  have f1: "filter (\<lambda>t. productId (trade_product t) = p) ts = ts"
    using assms(2) by (simp add: filter_id_conv)
  have f2: "filter (\<lambda>t. productId (trade_product t) = p \<and> trade_book t = b) ts
              = filter (\<lambda>t. trade_book t = b) ts" for b
    using assms(2) by (auto intro: filter_cong)
  have "GetAggregatePosition pos = sum_list (map signedQty ts)"
    using aggregate_of_AddTrades [of ts ?s0 p] pos by (simp add: aggregate_of_def f1)
  moreover have "GetPosition pos b = sum_list (map signedQty (filter (\<lambda>t. trade_book t = b) ts))" for b
    using slot_of_AddTrades [OF ko, of ts p b] pos by (simp add: slot_of_def f2)
  ultimately show ?thesis using pos by blast
qed


text \<open>The two trades of the spec's scenario satisfy the hypotheses of C2.\<close>

theorem position_linearity_witness:
  "[trade_T1, trade_T2] \<noteq> []
   \<and> productId (trade_product trade_T1) = ''91282CAV3''
   \<and> productId (trade_product trade_T2) = ''91282CAV3''
   \<and> (\<exists>pos. positionData (AddTrades [trade_T1, trade_T2]
                 \<lparr>positionData = Map.empty, position_listeners = [0, 1], position_notified = []\<rparr>)
                 ''91282CAV3'' = Some pos
          \<and> GetAggregatePosition pos = 2000000
          \<and> GetPosition pos ''TRSY1'' = 3000000
          \<and> GetPosition pos ''TRSY2'' = - 1000000)"
proof -
  have h1: "[trade_T1, trade_T2] \<noteq> []" by simp
  have h2: "\<forall>t \<in> set [trade_T1, trade_T2]. productId (trade_product t) = ''91282CAV3''"
    by (simp add: trade_T1_def trade_T2_def bond_2Y_def)
  from position_linearity [OF h1 h2, of "[0, 1]"] obtain pos where
    pos: "positionData (AddTrades [trade_T1, trade_T2]
                 \<lparr>positionData = Map.empty, position_listeners = [0, 1], position_notified = []\<rparr>)
                 ''91282CAV3'' = Some pos"
    and agg: "GetAggregatePosition pos = sum_list (map signedQty [trade_T1, trade_T2])"
    and slot: "\<And>book. GetPosition pos book =
                  sum_list (map signedQty (filter (\<lambda>t. trade_book t = book) [trade_T1, trade_T2]))"
    by blast
  have "GetAggregatePosition pos = 2000000"
    using agg by (simp add: signedQty_def trade_T1_def trade_T2_def)
  moreover have "GetPosition pos ''TRSY1'' = 3000000"
    using slot [of "''TRSY1''"] by (simp add: signedQty_def trade_T1_def trade_T2_def)
  moreover have "GetPosition pos ''TRSY2'' = - 1000000"
    using slot [of "''TRSY2''"] by (simp add: signedQty_def trade_T1_def trade_T2_def)
  ultimately show ?thesis
    using pos by (simp add: trade_T1_def trade_T2_def bond_2Y_def)
qed

lemmas chain_defs = PositionServiceListener_ProcessAdd_def AddPosition_def QueryPV01_def
  pv01Map_keys_def GetAggregatePosition_def UpdateQuantity_def AddTrade_def
  PositionService_init_def RiskService_init_def trade_T1_def trade_T2_def bond_2Y_def
  Position_AddPosition_def ProcessAdd_all_def Let_def

text \<open>
  Claim C1 at the spec's scenario. After the two trades have gone through \<open>AddTrade\<close> and
  \<open>AddPosition\<close> the aggregate position of the product is 2,000,000, and so is the quantity
  of the last \<open>PV01\<close> passed to the listeners, but the \<open>PV01\<close> stored for the product has
  quantity 5,000,000: \<open>AddPosition\<close> adds the aggregate, 2,000,000, to the 3,000,000 stored
  by the first trade.
\<close>

theorem pv01_totalQty_two_trades:
  "\<forall>calc. case process_trades calc [trade_T1, trade_T2]
                  (PositionService_init [0, 1], RiskService_init [2]) of
            Inl e \<Rightarrow> False
          | Inr (ps, rs) \<Rightarrow>
              map_option GetAggregatePosition (positionData ps ''91282CAV3'') = Some 2000000
              \<and> map_option pv_quantity (pv01Data rs ''91282CAV3'') = Some 5000000
              \<and> map (pv_quantity \<circ> snd) (risk_notified rs) = [3000000, 2000000]"
  by (simp add: chain_defs)

section \<open>The inquiry service: proofs\<close>

lemma OnMessage_QUOTED:
  assumes "inq_state d = QUOTED"
  shows "OnMessage d s =
           (d\<lparr>inq_state := DONE\<rparr>,
            s\<lparr>inquiryData := (inquiryData s)(inquiryId d := None),
              inq_notified := inq_notified s
                @ ProcessAdd_all (inq_listeners s) (d\<lparr>inq_state := DONE\<rparr>)
                @ ProcessAdd_all (inq_listeners s) (d\<lparr>inq_state := DONE\<rparr>)\<rparr>)"
  using assms by (simp add: OnMessage.simps [of d s] Let_def)

lemma Publish_RECEIVED:
  assumes "inq_state d = RECEIVED"
  shows "Publish d s =
           (d\<lparr>inq_state := DONE\<rparr>,
            s\<lparr>inquiryData := (inquiryData s)(inquiryId d := None),
              inq_notified := inq_notified s
                @ ProcessAdd_all (inq_listeners s) (d\<lparr>inq_state := DONE\<rparr>)
                @ ProcessAdd_all (inq_listeners s) (d\<lparr>inq_state := DONE\<rparr>)\<rparr>)"
  using assms by (simp add: Publish.simps [of d s] OnMessage_QUOTED)

text \<open>
  Claim C3, as the code has it. One call of \<open>OnMessage\<close> with an inquiry in state RECEIVED
  leaves the inquiry in state DONE (through QUOTED, set by \<open>Publish\<close>) and absent from
  the store, and every \<open>ProcessAdd\<close> carries the inquiry in state DONE; but each listener
  is called three times, not once: in the QUOTED branch of the inner \<open>OnMessage\<close>, at the
  end of the inner \<open>OnMessage\<close>, and at the end of the outer one.
\<close>

theorem inquiry_received_to_done:
  assumes "inq_state d = RECEIVED"
  shows "OnMessage d s =
           (d\<lparr>inq_state := DONE\<rparr>,
            s\<lparr>inquiryData := (inquiryData s)(inquiryId d := None),
              inq_notified := inq_notified s
                @ ProcessAdd_all (inq_listeners s) (d\<lparr>inq_state := DONE\<rparr>)
                @ ProcessAdd_all (inq_listeners s) (d\<lparr>inq_state := DONE\<rparr>)
                @ ProcessAdd_all (inq_listeners s) (d\<lparr>inq_state := DONE\<rparr>)\<rparr>)"
  using assms by (simp add: OnMessage.simps [of d s] Publish_RECEIVED Let_def)

text \<open>The inquiry \<open>INQ1\<close> of the spec's scenario, with one listener registered.\<close>

theorem inquiry_INQ1_three_notifications:
  "OnMessage inquiry_INQ1 (InquiryService_init [0]) =
     (inquiry_INQ1\<lparr>inq_state := DONE\<rparr>,
      \<lparr>inquiryData = Map.empty, inq_listeners = [0],
        inq_notified = [(0, inquiry_INQ1\<lparr>inq_state := DONE\<rparr>),
                        (0, inquiry_INQ1\<lparr>inq_state := DONE\<rparr>),
                        (0, inquiry_INQ1\<lparr>inq_state := DONE\<rparr>)]\<rparr>)"
  using inquiry_received_to_done [of inquiry_INQ1 "InquiryService_init [0]"]
  by (simp add: inquiry_INQ1_def InquiryService_init_def ProcessAdd_all_def)

section \<open>Trade booking: proofs\<close>

lemma ProcessAdd_synthesised:
  "TradeBookingServiceListener_ProcessAdd order' (c, s) =
     (c + 1, BookTrade (synthesised_trade order' c) s)"
  by (simp add: TradeBookingServiceListener_ProcessAdd_def synthesised_trade_def Let_def)

text \<open>
  Claim C10. \<open>BookTrade\<close> leaves the trade store as it is and only calls \<open>ProcessAdd\<close>
  on the listeners with the trade; so does \<open>TradeBookingServiceListener::ProcessAdd\<close>,
  which books the trade it builds from an execution order. \<open>GetData\<close> after
  \<open>BookTrade\<close> answers as before it, and fails for the trade's id when that id was not
  stored. \<open>OnMessage\<close> stores the trade under its id; \<open>AddListener\<close> and \<open>GetData\<close>
  do not change the store.
\<close>

theorem BookTrade_leaves_store:
  "tradeData (BookTrade trade s) = tradeData s
   \<and> tb_notified (BookTrade trade s) = tb_notified s @ map (\<lambda>l. (l, trade)) (tb_listeners s)
   \<and> snd (TradeBookingServiceListener_ProcessAdd order' (c, s))
        = BookTrade (synthesised_trade order' c) s
   \<and> fst (TradeBookingService_GetData key (BookTrade trade s))
        = fst (TradeBookingService_GetData key s)
   \<and> (tradeData s (tradeId trade) = None \<longrightarrow>
        fst (TradeBookingService_GetData (tradeId trade) (BookTrade trade s)) = Inl RuntimeError)
   \<and> tradeData (TradeBookingService_OnMessage trade s) = (tradeData s)(tradeId trade \<mapsto> trade)
   \<and> fst (TradeBookingService_GetData (tradeId trade) (TradeBookingService_OnMessage trade s))
        = Inr trade
   \<and> tradeData (TradeBookingService_AddListener l s) = tradeData s
   \<and> snd (TradeBookingService_GetData key s) = s"
  by (simp add: BookTrade_def ProcessAdd_all_def ProcessAdd_synthesised TradeBookingService_GetData_def
        TradeBookingService_OnMessage_def TradeBookingService_AddListener_def Let_def
      split: option.splits)

text \<open>An execution order booked into the service as constructed: the hypothesis of C10 holds.\<close>

theorem BookTrade_leaves_store_witness:
  "tradeData (TradeBookingService_init [0]) (tradeId (synthesised_trade order_A1 0)) = None
   \<and> fst (TradeBookingService_GetData ''AlgoA1''
            (snd (TradeBookingServiceListener_ProcessAdd order_A1 (0, TradeBookingService_init [0]))))
       = Inl RuntimeError
   \<and> tb_notified (snd (TradeBookingServiceListener_ProcessAdd order_A1 (0, TradeBookingService_init [0])))
       = [(0, synthesised_trade order_A1 0)]
   \<and> trade_book (synthesised_trade order_A1 0) = ''TRSY1''"
proof -
  let ?t = "synthesised_trade order_A1 0" and ?s = "TradeBookingService_init [0]"
  note th = BookTrade_leaves_store [of ?t ?s order_A1 0 "''AlgoA1''" 0]
  have id: "tradeId ?t = ''AlgoA1''" by (simp add: synthesised_trade_def order_A1_def)
  have h: "tradeData ?s (tradeId ?t) = None" by (simp add: TradeBookingService_init_def)
  have p: "snd (TradeBookingServiceListener_ProcessAdd order_A1 (0, ?s)) = BookTrade ?t ?s"
    using th by blast
  have "tradeData ?s (tradeId ?t) = None \<longrightarrow>
          fst (TradeBookingService_GetData (tradeId ?t) (BookTrade ?t ?s)) = Inl RuntimeError"
    using th by blast
  then have g: "fst (TradeBookingService_GetData ''AlgoA1'' (BookTrade ?t ?s)) = Inl RuntimeError"
    using h by (simp only: id)
  have "tb_notified (BookTrade ?t ?s) = tb_notified ?s @ map (\<lambda>l. (l, ?t)) (tb_listeners ?s)"
    using th by blast
  then have n: "tb_notified (BookTrade ?t ?s) = [(0, ?t)]"
    by (simp add: TradeBookingService_init_def)
  have b: "trade_book ?t = ''TRSY1''"
    by (simp add: synthesised_trade_def to_string_def nat_digits.simps digit_char_def)
  show ?thesis using h p g n b by simp
qed

section \<open>Algo execution: proofs\<close>

lemma smod_2_even: "(k :: int) smod 2 = 0 \<longleftrightarrow> even k"
  by (auto simp: smod_int_alt_def sgn_if)

lemma foldl_max_in: "foldl (\<lambda>largest y. if cmp largest y then y else largest) x xs \<in> set (x # xs)"
  by (induction xs arbitrary: x) auto

lemma foldl_min_in: "foldl (\<lambda>smallest y. if cmp y smallest then y else smallest) x xs \<in> set (x # xs)"
  by (induction xs arbitrary: x) auto

lemma foldl_max_price:
  "order_price x \<le> order_price (foldl (\<lambda>largest y. if ComparePriceAsc largest y then y else largest) x xs)
   \<and> (\<forall>y \<in> set xs. order_price y
          \<le> order_price (foldl (\<lambda>largest y. if ComparePriceAsc largest y then y else largest) x xs))"
proof (induction xs arbitrary: x)
  case Nil
  then show ?case by simp
next
  case (Cons a xs)
  show ?case
    using Cons.IH [of a] Cons.IH [of x]
    by (auto simp: ComparePriceAsc_def)
qed

lemma foldl_min_price:
  "order_price (foldl (\<lambda>smallest y. if ComparePriceAsc y smallest then y else smallest) x xs) \<le> order_price x
   \<and> (\<forall>y \<in> set xs. order_price (foldl (\<lambda>smallest y. if ComparePriceAsc y smallest then y else smallest) x xs)
          \<le> order_price y)"
proof (induction xs arbitrary: x)
  case Nil
  then show ?case by simp
next
  case (Cons a xs)
  show ?case
    using Cons.IH [of a] Cons.IH [of x]
    by (auto simp: ComparePriceAsc_def)
qed

lemma BestBidOffer_nonempty:
  assumes "bidStack orderBook \<noteq> []" "offerStack orderBook \<noteq> []"
  shows "\<exists>bo. BestBidOffer orderBook = Inr bo
           \<and> bidOrder bo \<in> set (bidStack orderBook)
           \<and> (\<forall>b \<in> set (bidStack orderBook). order_price b \<le> order_price (bidOrder bo))
           \<and> offerOrder bo \<in> set (offerStack orderBook)
           \<and> (\<forall>a \<in> set (offerStack orderBook). order_price (offerOrder bo) \<le> order_price a)"
proof -
  obtain b bs where b: "bidStack orderBook = b # bs" using assms(1) by (cases "bidStack orderBook") auto
  obtain a as where a: "offerStack orderBook = a # as" using assms(2) by (cases "offerStack orderBook") auto
  show ?thesis
    using foldl_max_in [of ComparePriceAsc b bs] foldl_min_in [of ComparePriceAsc a as]
      foldl_max_price [of b bs] foldl_min_price [of a as]
    by (simp add: BestBidOffer_def a b)
qed


lemma CreateExecutionOrder_policy:
  assumes "BestBidOffer orderBook = Inr bo"
  shows "CreateExecutionOrder rid11 rid5 orderBook c =
           Inr \<lparr>eo_product = book_product orderBook,
                 eo_side = (if order_price (offerOrder bo) - order_price (bidOrder bo) \<le> 1 / 128
                              \<and> odd (sint c) then OFFER else BID),
                 eo_orderId = ''Algo'' @ rid11, eo_orderType = MARKET,
                 eo_price = (if order_price (offerOrder bo) - order_price (bidOrder bo) \<le> 1 / 128
                               \<and> even (sint c) then order_price (offerOrder bo)
                             else order_price (bidOrder bo)),
                 eo_visibleQuantity =
                   (if order_price (offerOrder bo) - order_price (bidOrder bo) \<le> 1 / 128
                      \<and> odd (sint c) then order_quantity (offerOrder bo)
                    else order_quantity (bidOrder bo)),
                 eo_hiddenQuantity = 0, eo_parentOrderId = ''AlgoParent'' @ rid5,
                 eo_isChildOrder = False\<rparr>"
  using assms by (simp add: CreateExecutionOrder_def Let_def smod_2_even)

text \<open>
  Claim C8. For an order book with at least one bid and one offer, \<open>BestBidOffer\<close> is the
  highest-priced bid and the lowest-priced offer of the stacks, and the execution order that
  \<open>AlgoExecuteOrder\<close> stores follows the policy of the factory: with a spread of at most
  1/128, at an even counter side BID at the offer price for the quantity of the best bid,
  at an odd counter side OFFER at the bid price for the quantity of the best offer; with a
  wider spread side BID at the bid price for the quantity of the best bid. The order is a
  MARKET order, its visible quantity is that quantity and its hidden quantity 0, it is no
  child order, the \<open>AlgoExecution\<close> stored and passed to the listeners wraps it with
  market BROKERTEC, and the counter is one more afterwards.
\<close>

theorem algo_execution_policy:
  assumes "bidStack orderBook \<noteq> []" and "offerStack orderBook \<noteq> []"
  shows "\<exists>bo eo s'.
           BestBidOffer orderBook = Inr bo
         \<and> bidOrder bo \<in> set (bidStack orderBook)
         \<and> (\<forall>b \<in> set (bidStack orderBook). order_price b \<le> order_price (bidOrder bo))
         \<and> offerOrder bo \<in> set (offerStack orderBook)
         \<and> (\<forall>a \<in> set (offerStack orderBook). order_price (offerOrder bo) \<le> order_price a)
         \<and> CreateExecutionOrder rid11 rid5 orderBook (algo_count s) = Inr eo
         \<and> (order_price (offerOrder bo) - order_price (bidOrder bo) \<le> 1 / 128 \<longrightarrow>
              even (sint (algo_count s)) \<longrightarrow>
                eo_side eo = BID \<and> eo_price eo = order_price (offerOrder bo)
                \<and> eo_visibleQuantity eo = order_quantity (bidOrder bo))
         \<and> (order_price (offerOrder bo) - order_price (bidOrder bo) \<le> 1 / 128 \<longrightarrow>
              odd (sint (algo_count s)) \<longrightarrow>
                eo_side eo = OFFER \<and> eo_price eo = order_price (bidOrder bo)
                \<and> eo_visibleQuantity eo = order_quantity (offerOrder bo))
         \<and> (\<not> order_price (offerOrder bo) - order_price (bidOrder bo) \<le> 1 / 128 \<longrightarrow>
                eo_side eo = BID \<and> eo_price eo = order_price (bidOrder bo)
                \<and> eo_visibleQuantity eo = order_quantity (bidOrder bo))
         \<and> eo_orderType eo = MARKET \<and> eo_hiddenQuantity eo = 0 \<and> \<not> eo_isChildOrder eo
         \<and> eo_orderId eo = ''Algo'' @ rid11 \<and> eo_parentOrderId eo = ''AlgoParent'' @ rid5
         \<and> eo_product eo = book_product orderBook
         \<and> AlgoExecuteOrder rid11 rid5 orderBook s = Inr s'
         \<and> algo_count s' = algo_count s + 1
         \<and> algoExecutionData s' (productId (book_product orderBook))
              = Some \<lparr>executionOrderRef = eo, ae_market = BROKERTEC\<rparr>
         \<and> algo_notified s' = algo_notified s
              @ map (\<lambda>l. (l, \<lparr>executionOrderRef = eo, ae_market = BROKERTEC\<rparr>)) (algo_listeners s)"
proof -
  obtain bo where bo: "BestBidOffer orderBook = Inr bo"
    and best: "bidOrder bo \<in> set (bidStack orderBook)"
      "\<forall>b \<in> set (bidStack orderBook). order_price b \<le> order_price (bidOrder bo)"
      "offerOrder bo \<in> set (offerStack orderBook)"
      "\<forall>a \<in> set (offerStack orderBook). order_price (offerOrder bo) \<le> order_price a"
    using BestBidOffer_nonempty [OF assms] by blast
  note eo = CreateExecutionOrder_policy [OF bo, of rid11 rid5 "algo_count s"]
  show ?thesis
    apply (rule exI [of _ bo])
    apply (simp only: eo)
    apply (simp add: bo best AlgoExecuteOrder_def eo ProcessAdd_all_def Let_def)
    done
qed


text \<open>The book with a spread of 1/256 at counter 0 satisfies the hypotheses of C8.\<close>

theorem algo_execution_policy_witness:
  "bidStack book_gate \<noteq> [] \<and> offerStack book_gate \<noteq> []
   \<and> (\<exists>eo s'. CreateExecutionOrder ''0123456789A'' ''BCDEF'' book_gate 0 = Inr eo
          \<and> eo_side eo = BID \<and> eo_price eo = 100 \<and> eo_visibleQuantity eo = 1000000
          \<and> eo_orderType eo = MARKET \<and> eo_hiddenQuantity eo = 0 \<and> \<not> eo_isChildOrder eo
          \<and> AlgoExecuteOrder ''0123456789A'' ''BCDEF'' book_gate (AlgoExecutionService_init [0]) = Inr s'
          \<and> algo_count s' = 1
          \<and> algoExecutionData s' ''91282CAV3'' = Some \<lparr>executionOrderRef = eo, ae_market = BROKERTEC\<rparr>)"
proof -
  have h1: "bidStack book_gate \<noteq> []" and h2: "offerStack book_gate \<noteq> []"
    by (simp_all add: book_gate_def)
  have bbo: "BestBidOffer book_gate =
               Inr \<lparr>bidOrder = \<lparr>order_price = 99 + 31 / 32 + 7 / 256, order_quantity = 1000000, order_side = BID\<rparr>,
                     offerOrder = \<lparr>order_price = 100, order_quantity = 3000000, order_side = OFFER\<rparr>\<rparr>"
    by (simp add: BestBidOffer_def book_gate_def ComparePriceAsc_def)
  have c0: "algo_count (AlgoExecutionService_init [0]) = 0"
    by (simp add: AlgoExecutionService_init_def)
  from algo_execution_policy [OF h1 h2, of "''0123456789A''" "''BCDEF''" "AlgoExecutionService_init [0]"]
  obtain bo eo s' where
    bo: "BestBidOffer book_gate = Inr bo"
    and eo: "CreateExecutionOrder ''0123456789A'' ''BCDEF'' book_gate (algo_count (AlgoExecutionService_init [0])) = Inr eo"
    and even_case: "order_price (offerOrder bo) - order_price (bidOrder bo) \<le> 1 / 128 \<longrightarrow>
              even (sint (algo_count (AlgoExecutionService_init [0]))) \<longrightarrow>
                eo_side eo = BID \<and> eo_price eo = order_price (offerOrder bo)
                \<and> eo_visibleQuantity eo = order_quantity (bidOrder bo)"
    and rest: "eo_orderType eo = MARKET" "eo_hiddenQuantity eo = 0" "\<not> eo_isChildOrder eo"
    and s': "AlgoExecuteOrder ''0123456789A'' ''BCDEF'' book_gate (AlgoExecutionService_init [0]) = Inr s'"
      "algo_count s' = algo_count (AlgoExecutionService_init [0]) + 1"
      "algoExecutionData s' (productId (book_product book_gate))
              = Some \<lparr>executionOrderRef = eo, ae_market = BROKERTEC\<rparr>"
    by blast
  have bo': "bo = \<lparr>bidOrder = \<lparr>order_price = 99 + 31 / 32 + 7 / 256, order_quantity = 1000000, order_side = BID\<rparr>,
                   offerOrder = \<lparr>order_price = 100, order_quantity = 3000000, order_side = OFFER\<rparr>\<rparr>"
    using bo bbo by simp
  have "eo_side eo = BID \<and> eo_price eo = 100 \<and> eo_visibleQuantity eo = 1000000"
    using even_case by (simp add: bo' c0)
  moreover have "productId (book_product book_gate) = ''91282CAV3''"
    by (simp add: book_gate_def bond_2Y_def)
  ultimately show ?thesis
    using h1 h2 eo rest s' by (simp add: c0)
qed

section \<open>Order book aggregation: proofs\<close>

lemma fst_priceMap_add: "set (map fst (priceMap_add p q m)) = insert p (set (map fst m))"
  by (induction p q m rule: priceMap_add.induct) (simp_all add: insert_commute)

lemma distinct_priceMap_add:
  "distinct (map fst m) \<Longrightarrow> distinct (map fst (priceMap_add p q m))"
proof (induction p q m rule: priceMap_add.induct)
  case (1 p q)
  then show ?case by simp
next
  case (2 p q p' q' m)
  show ?case
  proof (cases "p' = p")
    case True
    then show ?thesis using "2.prems" by simp
  next
    case False
    have "p' \<notin> set (map fst (priceMap_add p q m))"
      using "2.prems" False by (simp add: fst_priceMap_add del: set_map)
    then show ?thesis using "2.IH" [OF False] "2.prems" False by simp
  qed
qed

lemma map_of_priceMap_add:
  "map_of (priceMap_add p q m) x =
     (if x = p then Some ((case map_of m p of None \<Rightarrow> 0 | Some w \<Rightarrow> w) + q) else map_of m x)"
  by (induction p q m rule: priceMap_add.induct) auto

lemma distinct_priceMap:
  "distinct (map fst m) \<Longrightarrow>
     distinct (map fst (foldl (\<lambda>m order. priceMap_add (order_price order) (order_quantity order) m) m stack))"
  by (induction stack arbitrary: m) (simp_all add: distinct_priceMap_add)

lemma map_of_priceMap:
  "map_of (foldl (\<lambda>m order. priceMap_add (order_price order) (order_quantity order) m) m stack) x =
     (if x \<in> order_price ` set stack \<or> map_of m x \<noteq> None
      then Some ((case map_of m x of None \<Rightarrow> 0 | Some w \<Rightarrow> w) + qty_at x stack)
      else None)"
proof (induction stack arbitrary: m)
  case Nil
  then show ?case by (auto simp: qty_at_def)
next
  case (Cons a stack)
  show ?case
    unfolding foldl_Cons Cons.IH
    by (auto simp: map_of_priceMap_add qty_at_def add.assoc)
qed


lemma Aggregate_props:
  assumes iter: "\<forall>m. mset (iter m) = mset m"
  shows "distinct (map order_price (Aggregate iter stack side))"
    and "\<forall>ord \<in> set (Aggregate iter stack side).
           order_side ord = side \<and> order_quantity ord = qty_at (order_price ord) stack"
    and "order_price ` set (Aggregate iter stack side) = order_price ` set stack"
proof -
  define pm where
    "pm = foldl (\<lambda>m order. priceMap_add (order_price order) (order_quantity order) m) [] stack"
  have agg: "Aggregate iter stack side =
               map (\<lambda>(price, quantity). \<lparr>order_price = price, order_quantity = quantity, order_side = side\<rparr>)
                 (iter pm)"
    by (simp add: Aggregate_def pm_def)
  have prices: "map order_price (Aggregate iter stack side) = map fst (iter pm)"
    by (simp add: agg comp_def case_prod_beta)
  have d: "distinct (map fst pm)"
    unfolding pm_def by (rule distinct_priceMap) simp
  have ms: "mset (iter pm) = mset pm" using iter by simp
  then have "mset (map fst (iter pm)) = mset (map fst pm)" by (metis mset_map)
  then have d': "distinct (map fst (iter pm))"
    using d by (metis mset_eq_imp_distinct_iff)
  show "distinct (map order_price (Aggregate iter stack side))"
    using d' by (simp only: prices)
  have st: "set (iter pm) = set pm" using ms by (rule mset_eq_setD)
  have look: "map_of pm x = (if x \<in> order_price ` set stack then Some (qty_at x stack) else None)" for x
    unfolding pm_def map_of_priceMap by simp
  show "\<forall>ord \<in> set (Aggregate iter stack side).
           order_side ord = side \<and> order_quantity ord = qty_at (order_price ord) stack"
  proof
    fix ord assume "ord \<in> set (Aggregate iter stack side)"
    then obtain p q where pq: "(p, q) \<in> set pm"
      and ord: "ord = \<lparr>order_price = p, order_quantity = q, order_side = side\<rparr>"
      using st by (auto simp: agg)
    have "map_of pm p = Some q" using d pq by simp
    then have "q = qty_at p stack" using look [of p] by (simp split: if_splits)
    then show "order_side ord = side \<and> order_quantity ord = qty_at (order_price ord) stack"
      using ord by simp
  qed
  have "set (map fst pm) = order_price ` set stack"
  proof -
    have "x \<in> set (map fst pm) \<longleftrightarrow> x \<in> order_price ` set stack" for x
      using look [of x] by (metis map_of_eq_None_iff option.distinct(1) set_map)
    then show ?thesis by blast
  qed
  moreover have "order_price ` set (Aggregate iter stack side) = set (map fst (iter pm))"
    using prices by (metis set_map)
  moreover have "set (map fst (iter pm)) = set (map fst pm)" using st by simp
  ultimately show "order_price ` set (Aggregate iter stack side) = order_price ` set stack"
    by simp
qed



text \<open>
  Claim C9. Whatever the order in which the hash map is walked, \<open>AggregateDepth\<close> of a
  stored book stores and returns a book in which each side has at most one order per price,
  has exactly the prices the side had before, and in which the order at a price has the sum
  of the quantities of the side's former orders at that price and the tag of its side (BID
  on the bid stack, OFFER on the offer stack).
\<close>

theorem AggregateDepth_invariant:
  assumes "\<forall>m. mset (iter m) = mset m" and "orderBookMap s productId' = Some book"
  shows "\<exists>book' s'. AggregateDepth iter dflt productId' s = (book', s')
           \<and> orderBookMap s' productId' = Some book'
           \<and> book_product book' = book_product book
           \<and> distinct (map order_price (bidStack book'))
           \<and> distinct (map order_price (offerStack book'))
           \<and> (\<forall>ord \<in> set (bidStack book').
                 order_side ord = BID \<and> order_quantity ord = qty_at (order_price ord) (bidStack book))
           \<and> (\<forall>ord \<in> set (offerStack book').
                 order_side ord = OFFER \<and> order_quantity ord = qty_at (order_price ord) (offerStack book))
           \<and> order_price ` set (bidStack book') = order_price ` set (bidStack book)
           \<and> order_price ` set (offerStack book') = order_price ` set (offerStack book)"
proof -
  let ?b = "\<lparr>book_product = book_product book,
             bidStack = Aggregate iter (bidStack book) BID,
             offerStack = Aggregate iter (offerStack book) OFFER\<rparr>"
  let ?s = "s\<lparr>orderBookMap := (orderBookMap s)(productId' \<mapsto> ?b)\<rparr>"
  note bid = Aggregate_props [OF assms(1), of "bidStack book" BID]
  note offer = Aggregate_props [OF assms(1), of "offerStack book" OFFER]
  have r: "AggregateDepth iter dflt productId' s = (?b, ?s)"
    using assms(2) by (simp add: AggregateDepth_def Let_def)
  have c1: "orderBookMap ?s productId' = Some ?b" by simp
  have c2: "book_product ?b = book_product book" by simp
  have c3: "distinct (map order_price (bidStack ?b))" using bid(1) by simp
  have c4: "distinct (map order_price (offerStack ?b))" using offer(1) by simp
  have c5: "\<forall>ord \<in> set (bidStack ?b).
              order_side ord = BID \<and> order_quantity ord = qty_at (order_price ord) (bidStack book)"
    using bid(2) by simp
  have c6: "\<forall>ord \<in> set (offerStack ?b).
              order_side ord = OFFER \<and> order_quantity ord = qty_at (order_price ord) (offerStack book)"
    using offer(2) by simp
  have c7: "order_price ` set (bidStack ?b) = order_price ` set (bidStack book)"
    using bid(3) by simp
  have c8: "order_price ` set (offerStack ?b) = order_price ` set (offerStack book)"
    using offer(3) by simp
  from r c1 c2 c3 c4 c5 c6 c7 c8 show ?thesis by blast
qed



text \<open>
  Two bids at \<open>99-160\<close> collapse to one bid order with the sum of their quantities; the map
  is walked in reverse here.
\<close>

theorem AggregateDepth_invariant_witness:
  "(\<forall>m :: (double \<times> long) list. mset (rev m) = mset m)
   \<and> orderBookMap ((MarketDataService_init [0])\<lparr>orderBookMap := [''91282CAV3'' \<mapsto> book_two_bids]\<rparr>)
        ''91282CAV3'' = Some book_two_bids
   \<and> bidStack (fst (AggregateDepth rev bond_2Y ''91282CAV3''
        ((MarketDataService_init [0])\<lparr>orderBookMap := [''91282CAV3'' \<mapsto> book_two_bids]\<rparr>)))
       = [\<lparr>order_price = 99 + 16 / 32, order_quantity = 3000000, order_side = BID\<rparr>]
   \<and> distinct (map order_price (bidStack (fst (AggregateDepth rev bond_2Y ''91282CAV3''
        ((MarketDataService_init [0])\<lparr>orderBookMap := [''91282CAV3'' \<mapsto> book_two_bids]\<rparr>)))))"
proof -
  let ?s = "(MarketDataService_init [0])\<lparr>orderBookMap := [''91282CAV3'' \<mapsto> book_two_bids]\<rparr>"
  have h1: "\<forall>m :: (double \<times> long) list. mset (rev m) = mset m" by simp
  have h2: "orderBookMap ?s ''91282CAV3'' = Some book_two_bids" by simp
  have "\<exists>book' s'. AggregateDepth rev bond_2Y ''91282CAV3'' ?s = (book', s')
           \<and> distinct (map order_price (bidStack book'))"
    using AggregateDepth_invariant [OF h1 h2, of bond_2Y]
    apply -
    apply (elim exE conjE)
    apply (intro exI conjI)
     apply assumption+
    done
  then obtain book' s' where r: "AggregateDepth rev bond_2Y ''91282CAV3'' ?s = (book', s')"
    and d: "distinct (map order_price (bidStack book'))"
    by (elim exE conjE)
  have d': "distinct (map order_price (bidStack (fst (AggregateDepth rev bond_2Y ''91282CAV3'' ?s))))"
    using d by (simp only: r fst_conv)
  have pm: "foldl (\<lambda>m order. priceMap_add (order_price order) (order_quantity order) m) []
              (bidStack book_two_bids) = [(99 + 16 / 32, 3000000)]"
    by (simp add: book_two_bids_def)
  have ev: "bidStack (fst (AggregateDepth rev bond_2Y ''91282CAV3'' ?s))
              = [\<lparr>order_price = 99 + 16 / 32, order_quantity = 3000000, order_side = BID\<rparr>]"
    by (simp add: AggregateDepth_def Aggregate_def pm Let_def)
  show ?thesis by (intro conjI h1 h2 ev d')
qed

section \<open>GetData: proofs\<close>

lemma QueryProduct_2Y: "QueryProduct ''91282CAV3'' = Inr bond_2Y"
  by (simp add: QueryProduct_def productConstructors_def bond_2Y_def)

lemma QueryProduct_error: "QueryProduct key = Inl e \<Longrightarrow> e = InvalidArgument"
  by (simp add: QueryProduct_def split: option.splits)

text \<open>
  Claim C5, as the code has it. In every service but the market data service, \<open>GetData\<close>
  of a key that is not stored fails with \<open>runtime_error\<close> (NotFound) and leaves the store
  as it is, and of a stored key returns the stored value. \<open>MarketDataService::GetData\<close>
  never fails with NotFound: for a key that is not stored it stores and returns an empty
  order book of the product when \<open>ProductFactory\<close> knows the key, and fails with
  \<open>invalid_argument\<close> (UnknownProduct), the store unchanged, when it does not.
\<close>

theorem GetData_absent_key:
  "(priceData ps key = None \<longrightarrow> PricingService_GetData key ps = (Inl RuntimeError, ps))
   \<and> (priceData ps key = Some v1 \<longrightarrow> PricingService_GetData key ps = (Inr v1, ps))
   \<and> (positionData pos key = None \<longrightarrow> PositionService_GetData key pos = (Inl RuntimeError, pos))
   \<and> (positionData pos key = Some v2 \<longrightarrow> PositionService_GetData key pos = (Inr v2, pos))
   \<and> (pv01Data rs key = None \<longrightarrow> RiskService_GetData key rs = (Inl RuntimeError, rs))
   \<and> (pv01Data rs key = Some v3 \<longrightarrow> RiskService_GetData key rs = (Inr v3, rs))
   \<and> (inquiryData iq key = None \<longrightarrow> InquiryService_GetData key iq = (Inl RuntimeError, iq))
   \<and> (inquiryData iq key = Some v4 \<longrightarrow> InquiryService_GetData key iq = (Inr v4, iq))
   \<and> (tradeData tb key = None \<longrightarrow> TradeBookingService_GetData key tb = (Inl RuntimeError, tb))
   \<and> (tradeData tb key = Some v5 \<longrightarrow> TradeBookingService_GetData key tb = (Inr v5, tb))
   \<and> (algoExecutionData ae key = None \<longrightarrow> AlgoExecutionService_GetData key ae = (Inl RuntimeError, ae))
   \<and> (algoExecutionData ae key = Some v6 \<longrightarrow> AlgoExecutionService_GetData key ae = (Inr v6, ae))
   \<and> (ex key = None \<longrightarrow> ExecutionService_GetData key ex = (Inl RuntimeError, ex))
   \<and> (ex key = Some v7 \<longrightarrow> ExecutionService_GetData key ex = (Inr v7, ex))
   \<and> (m key = None \<longrightarrow> StreamingService_GetData key m = (Inl RuntimeError, m)
         \<and> AlgoStreamingService_GetData key m = (Inl RuntimeError, m)
         \<and> HistoricalDataService_GetData key m = (Inl RuntimeError, m)
         \<and> BaseService_GetData key m = (Inl RuntimeError, m))
   \<and> (m key = Some v8 \<longrightarrow> StreamingService_GetData key m = (Inr v8, m)
         \<and> AlgoStreamingService_GetData key m = (Inr v8, m)
         \<and> HistoricalDataService_GetData key m = (Inr v8, m)
         \<and> BaseService_GetData key m = (Inr v8, m))
   \<and> (orderBookMap md key = Some v9 \<longrightarrow> MarketDataService_GetData key md = (Inr v9, md))
   \<and> (orderBookMap md key = None \<longrightarrow> QueryProduct key = Inr p \<longrightarrow>
         MarketDataService_GetData key md =
           (Inr \<lparr>book_product = p, bidStack = [], offerStack = []\<rparr>,
            md\<lparr>orderBookMap := (orderBookMap md)(key \<mapsto> \<lparr>book_product = p, bidStack = [], offerStack = []\<rparr>)\<rparr>))
   \<and> (orderBookMap md key = None \<longrightarrow> QueryProduct key = Inl e \<longrightarrow>
         e = InvalidArgument \<and> MarketDataService_GetData key md = (Inl InvalidArgument, md))"
proof -
  have md3: "orderBookMap md key = None \<longrightarrow> QueryProduct key = Inl e \<longrightarrow>
         e = InvalidArgument \<and> MarketDataService_GetData key md = (Inl InvalidArgument, md)"
    using QueryProduct_error [of key e] by (auto simp: MarketDataService_GetData_def)
  show ?thesis
    by (intro conjI md3)
      (simp_all add: PricingService_GetData_def PositionService_GetData_def RiskService_GetData_def
        InquiryService_GetData_def TradeBookingService_GetData_def AlgoExecutionService_GetData_def
        ExecutionService_GetData_def StreamingService_GetData_def AlgoStreamingService_GetData_def
        HistoricalDataService_GetData_def BaseService_GetData_def MarketDataService_GetData_def Let_def)
qed

text \<open>
  C5 as stated fails for the market data service: the key \<open>91282CAV3\<close> is not stored, yet
  \<open>GetData\<close> returns a book and the store holds the key afterwards.
\<close>

theorem GetData_absent_key_counterexample:
  "orderBookMap (MarketDataService_init [0]) ''91282CAV3'' = None
   \<and> fst (MarketDataService_GetData ''91282CAV3'' (MarketDataService_init [0]))
        = Inr \<lparr>book_product = bond_2Y, bidStack = [], offerStack = []\<rparr>
   \<and> orderBookMap (snd (MarketDataService_GetData ''91282CAV3'' (MarketDataService_init [0]))) ''91282CAV3''
        = Some \<lparr>book_product = bond_2Y, bidStack = [], offerStack = []\<rparr>
   \<and> MarketDataService_GetData ''91282CAV3'' (MarketDataService_init [0])
        \<noteq> (Inl RuntimeError, MarketDataService_init [0])"
  by (simp add: MarketDataService_GetData_def MarketDataService_init_def QueryProduct_2Y Let_def)

text \<open>The services as constructed satisfy the hypotheses of C5 as the code has it.\<close>

theorem GetData_absent_key_witness:
  "priceData (PricingService_init [0, 1]) ''91282CAV3'' = None
   \<and> PricingService_GetData ''91282CAV3'' (PricingService_init [0, 1])
        = (Inl RuntimeError, PricingService_init [0, 1])
   \<and> orderBookMap (MarketDataService_init [0]) ''91282CAV3'' = None
   \<and> QueryProduct ''91282CAV3'' = Inr bond_2Y
   \<and> fst (MarketDataService_GetData ''91282CAV3'' (MarketDataService_init [0]))
        = Inr \<lparr>book_product = bond_2Y, bidStack = [], offerStack = []\<rparr>"
proof -
  have h1: "priceData (PricingService_init [0, 1]) ''91282CAV3'' = None"
    by (simp add: PricingService_init_def)
  have h2: "orderBookMap (MarketDataService_init [0]) ''91282CAV3'' = None"
    by (simp add: MarketDataService_init_def)
  note th = GetData_absent_key [of "PricingService_init [0, 1]" "''91282CAV3''" undefined
      "PositionService_init []" undefined "RiskService_init []" undefined
      "InquiryService_init []" undefined "TradeBookingService_init []" undefined
      "AlgoExecutionService_init []" undefined "Map.empty" undefined
      "Map.empty :: string \<rightharpoonup> unit" undefined "MarketDataService_init [0]" undefined
      bond_2Y InvalidArgument]
  have c1: "priceData (PricingService_init [0, 1]) ''91282CAV3'' = None \<longrightarrow>
        PricingService_GetData ''91282CAV3'' (PricingService_init [0, 1])
          = (Inl RuntimeError, PricingService_init [0, 1])"
    using th by (rule conjunct1)
  have c2: "orderBookMap (MarketDataService_init [0]) ''91282CAV3'' = None \<longrightarrow>
        QueryProduct ''91282CAV3'' = Inr bond_2Y \<longrightarrow>
        MarketDataService_GetData ''91282CAV3'' (MarketDataService_init [0]) =
           (Inr \<lparr>book_product = bond_2Y, bidStack = [], offerStack = []\<rparr>,
            (MarketDataService_init [0])\<lparr>orderBookMap := (orderBookMap (MarketDataService_init [0]))
               (''91282CAV3'' \<mapsto> \<lparr>book_product = bond_2Y, bidStack = [], offerStack = []\<rparr>)\<rparr>)"
    using th by (elim conjE)
  have "PricingService_GetData ''91282CAV3'' (PricingService_init [0, 1])
        = (Inl RuntimeError, PricingService_init [0, 1])"
    using c1 h1 by (rule mp)
  moreover have "fst (MarketDataService_GetData ''91282CAV3'' (MarketDataService_init [0]))
        = Inr \<lparr>book_product = bond_2Y, bidStack = [], offerStack = []\<rparr>"
    using c2 h2 QueryProduct_2Y by simp
  ultimately show ?thesis by (intro conjI h1 h2 QueryProduct_2Y)
qed

section \<open>The connectors: proofs\<close>































end
